theory Spec2Isabelle
  imports Complex_Main
begin

section \<open>Python values: exceptions, floats, arrays\<close>

text \<open>
  The selectors of \<^verbatim>\<open>my_model_selectors.py\<close> are embedded as functions into a sum type:
  \<open>Inl e\<close> is a raised exception, \<open>Inr v\<close> a returned value. A bare \<^verbatim>\<open>except:\<close> is a
  case distinction on that sum. The diagnostic \<^verbatim>\<open>print\<close> calls under \<^verbatim>\<open>self.verbose\<close>
  and the warning filters have no influence on any returned value and are left out.
\<close>

datatype exn =
    AttributeError
  | TypeError
  | ValueError
  | KeyError
  | IndexError
  | LibraryError nat

definition py_then :: "exn + 'a \<Rightarrow> ('a \<Rightarrow> exn + 'b) \<Rightarrow> exn + 'b" where
  "py_then m f = (case m of Inl e \<Rightarrow> Inl e | Inr v \<Rightarrow> f v)"

text \<open>
  A Python float is a real number, an infinity or not-a-number. The selectors create
  \<^verbatim>\<open>float('inf')\<close> and \<^verbatim>\<open>float('-inf')\<close> themselves, and \<^verbatim>\<open>np.mean\<close> of an empty
  list is \<^verbatim>\<open>nan\<close>. Rounding is not modelled: finite floats are reals. Every ordered
  comparison with \<^verbatim>\<open>nan\<close> is false.
\<close>

datatype pyfloat = NaN | NegInf | Fin real | PosInf

fun fl_lt :: "pyfloat \<Rightarrow> pyfloat \<Rightarrow> bool" where
  "fl_lt NaN _ = False"
| "fl_lt _ NaN = False"
| "fl_lt NegInf NegInf = False"
| "fl_lt NegInf _ = True"
| "fl_lt (Fin a) (Fin b) = (a < b)"
| "fl_lt (Fin _) PosInf = True"
| "fl_lt (Fin _) NegInf = False"
| "fl_lt PosInf _ = False"

definition fl_gt :: "pyfloat \<Rightarrow> pyfloat \<Rightarrow> bool" where
  "fl_gt a b = fl_lt b a"

fun fl_sub :: "pyfloat \<Rightarrow> pyfloat \<Rightarrow> pyfloat" where
  "fl_sub NaN _ = NaN"
| "fl_sub _ NaN = NaN"
| "fl_sub (Fin a) (Fin b) = Fin (a - b)"
| "fl_sub (Fin _) PosInf = NegInf"
| "fl_sub (Fin _) NegInf = PosInf"
| "fl_sub PosInf PosInf = NaN"
| "fl_sub PosInf _ = PosInf"
| "fl_sub NegInf NegInf = NaN"
| "fl_sub NegInf _ = NegInf"

text \<open>\<^verbatim>\<open>np.mean\<close> of a list of finite floats; the empty list gives \<^verbatim>\<open>nan\<close> (with a warning).\<close>

definition np_mean :: "real list \<Rightarrow> pyfloat" where
  "np_mean scores = (if scores = [] then NaN else Fin (sum_list scores / real (length scores)))"

text \<open>
  Array arguments: a matrix of feature vectors (one row per frame), or the vector of
  integer indices that \<^verbatim>\<open>KFold\<close> produces.
\<close>

type_synonym frame = "real list"
type_synonym sequence = "frame list"

datatype ndarray = Matrix "frame list" | IntVector "nat list"

fun len :: "ndarray \<Rightarrow> nat" where
  "len (Matrix rows) = length rows"
| "len (IntVector is) = length is"

text \<open>\<^verbatim>\<open>math.log\<close> raises \<^verbatim>\<open>ValueError\<close> at zero.\<close>

definition math_log :: "nat \<Rightarrow> exn + real" where
  "math_log n = (if n = 0 then Inl ValueError else Inr (ln (real n)))"

section \<open>The hmmlearn collaborator\<close>

text \<open>
  \<^verbatim>\<open>GaussianHMM(n_components=num_states, ...)\<close> builds a model object that carries the
  requested number of states; \<^verbatim>\<open>.fit(X, lengths)\<close> trains it and returns the same object,
  or raises. Training and scoring themselves are outside the repository, so they are
  parameters: \<open>hmm_fit\<close> maps (states, seed, data, lengths) to the feature count and the
  trained parameters, \<open>hmm_score\<close> gives the log-likelihood of data under a model. With a
  fixed seed both are functions of their arguments.
\<close>

record 'p GaussianHMM =
  n_components :: int
  n_features :: int
  fitted :: 'p

record 'p hmmlearn =
  hmm_fit :: "int \<Rightarrow> int \<Rightarrow> ndarray \<Rightarrow> nat list \<Rightarrow> exn + (int \<times> 'p)"
  hmm_score :: "'p GaussianHMM \<Rightarrow> ndarray \<Rightarrow> nat list \<Rightarrow> exn + real"

definition GaussianHMM_fit ::
  "'p hmmlearn \<Rightarrow> int \<Rightarrow> int \<Rightarrow> ndarray \<Rightarrow> nat list \<Rightarrow> exn + 'p GaussianHMM" where
  "GaussianHMM_fit lib num_states seed x ls =
     py_then (hmm_fit lib num_states seed x ls)
       (\<lambda>(d, p). Inr \<lparr>n_components = num_states, n_features = d, fitted = p\<rparr>)"

text \<open>Attribute access and a method call on a variable that may hold \<^verbatim>\<open>None\<close>.\<close>

definition getattr_n_features :: "'p GaussianHMM option \<Rightarrow> exn + int" where
  "getattr_n_features model =
     (case model of None \<Rightarrow> Inl AttributeError | Some m \<Rightarrow> Inr (n_features m))"

definition call_score ::
  "'p hmmlearn \<Rightarrow> 'p GaussianHMM option \<Rightarrow> ndarray \<Rightarrow> nat list \<Rightarrow> exn + real" where
  "call_score lib model x ls =
     (case model of None \<Rightarrow> Inl AttributeError | Some m \<Rightarrow> hmm_score lib m x ls)"

section \<open>ModelSelector\<close>

type_synonym word_sequences = "(string \<times> sequence list) list"
type_synonym word_Xlengths = "(string \<times> (ndarray \<times> nat list)) list"

record selector =
  words :: word_sequences
  hwords :: word_Xlengths
  sequences :: "sequence list"
  X :: ndarray
  lengths :: "nat list"
  this_word :: string
  n_constant :: int
  min_n_components :: int
  max_n_components :: int
  random_state :: int
  verbose :: bool

text \<open>Subscripting a dictionary (an association list in insertion order).\<close>

definition getitem :: "(string \<times> 'v) list \<Rightarrow> string \<Rightarrow> exn + 'v" where
  "getitem d k = (case map_of d k of None \<Rightarrow> Inl KeyError | Some v \<Rightarrow> Inr v)"

definition ModelSelector_init ::
  "word_sequences \<Rightarrow> word_Xlengths \<Rightarrow> string \<Rightarrow> int \<Rightarrow> int \<Rightarrow> int \<Rightarrow> int \<Rightarrow> bool
     \<Rightarrow> exn + selector" where
  "ModelSelector_init all_word_sequences all_word_Xlengths word nc mn mx rs vb =
     py_then (getitem all_word_sequences word) (\<lambda>seqs.
     py_then (getitem all_word_Xlengths word) (\<lambda>(x, ls).
       Inr \<lparr>words = all_word_sequences, hwords = all_word_Xlengths, sequences = seqs,
            X = x, lengths = ls, this_word = word, n_constant = nc,
            min_n_components = mn, max_n_components = mx, random_state = rs,
            verbose = vb\<rparr>))"

text \<open>\<^verbatim>\<open>base_model\<close>: fit on \<^verbatim>\<open>self.X, self.lengths\<close>; any exception becomes \<^verbatim>\<open>None\<close>.\<close>

definition base_model ::
  "'p hmmlearn \<Rightarrow> selector \<Rightarrow> int \<Rightarrow> exn + 'p GaussianHMM option" where
  "base_model lib self num_states =
     (case GaussianHMM_fit lib num_states (random_state self) (X self) (lengths self) of
        Inr hmm_model \<Rightarrow> Inr (Some hmm_model)
      | Inl e \<Rightarrow> Inr None)"

section \<open>SelectorConstant\<close>

definition SelectorConstant_select ::
  "'p hmmlearn \<Rightarrow> selector \<Rightarrow> exn + 'p GaussianHMM option" where
  "SelectorConstant_select lib self =
     (let best_num_components = n_constant self in base_model lib self best_num_components)"

section \<open>SelectorBIC\<close>

text \<open>
  The body of the \<^verbatim>\<open>try\<close> up to the computed score (lines 85 to 87), then the comparison
  and the \<^verbatim>\<open>except: continue\<close> around both, then the loop over
  \<^verbatim>\<open>range(min_n_components, max_n_components + 1)\<close>.
\<close>

definition bic_candidate ::
  "'p hmmlearn \<Rightarrow> selector \<Rightarrow> int \<Rightarrow> exn + ('p GaussianHMM option \<times> pyfloat)" where
  "bic_candidate lib self idx =
     py_then (base_model lib self idx) (\<lambda>model.
     py_then (getattr_n_features model) (\<lambda>d.
       let parameters_n = idx ^ 2 + 2 * idx * d - 1 in
     py_then (call_score lib model (X self) (lengths self)) (\<lambda>logL.
     py_then (math_log (len (X self))) (\<lambda>logN.
       Inr (model, Fin (- 2 * logL + real_of_int parameters_n * logN))))))"

definition bic_iter ::
  "'p hmmlearn \<Rightarrow> selector \<Rightarrow> pyfloat \<times> 'p GaussianHMM option \<Rightarrow> int
     \<Rightarrow> pyfloat \<times> 'p GaussianHMM option" where
  "bic_iter lib self st idx =
     (case bic_candidate lib self idx of
        Inr (model, score) \<Rightarrow> if fl_lt score (fst st) then (score, model) else st
      | Inl e \<Rightarrow> st)"

fun bic_loop ::
  "'p hmmlearn \<Rightarrow> selector \<Rightarrow> int list \<Rightarrow> pyfloat \<times> 'p GaussianHMM option
     \<Rightarrow> pyfloat \<times> 'p GaussianHMM option" where
  "bic_loop lib self [] st = st"
| "bic_loop lib self (idx # rest) st = bic_loop lib self rest (bic_iter lib self st idx)"

definition SelectorBIC_select ::
  "'p hmmlearn \<Rightarrow> selector \<Rightarrow> exn + 'p GaussianHMM option" where
  "SelectorBIC_select lib self =
     (let lowest_score = PosInf in
      py_then (base_model lib self (n_constant self)) (\<lambda>best_model.
        Inr (snd (bic_loop lib self [min_n_components self .. max_n_components self]
                    (lowest_score, best_model)))))"

section \<open>SelectorDIC\<close>

text \<open>The inner loop over \<^verbatim>\<open>self.hwords.items()\<close> appends one score per other word.\<close>

fun dic_others ::
  "'p hmmlearn \<Rightarrow> 'p GaussianHMM option \<Rightarrow> string \<Rightarrow> word_Xlengths \<Rightarrow> real list
     \<Rightarrow> exn + real list" where
  "dic_others lib model w [] scores = Inr scores"
| "dic_others lib model w ((word, (test_x, test_lengths)) # rest) scores =
     (if word \<noteq> w
      then py_then (call_score lib model test_x test_lengths)
             (\<lambda>s. dic_others lib model w rest (scores @ [s]))
      else dic_others lib model w rest scores)"

definition dic_candidate ::
  "'p hmmlearn \<Rightarrow> selector \<Rightarrow> int \<Rightarrow> exn + ('p GaussianHMM option \<times> pyfloat)" where
  "dic_candidate lib self i =
     py_then (base_model lib self i) (\<lambda>model.
     py_then (dic_others lib model (this_word self) (hwords self) []) (\<lambda>scores.
     py_then (call_score lib model (X self) (lengths self)) (\<lambda>model_score.
       Inr (model, fl_sub (Fin model_score) (np_mean scores)))))"

definition dic_iter ::
  "'p hmmlearn \<Rightarrow> selector \<Rightarrow> pyfloat \<times> 'p GaussianHMM option \<Rightarrow> int
     \<Rightarrow> pyfloat \<times> 'p GaussianHMM option" where
  "dic_iter lib self st i =
     (case dic_candidate lib self i of
        Inr (model, score) \<Rightarrow> if fl_gt score (fst st) then (score, model) else st
      | Inl e \<Rightarrow> st)"

fun dic_loop ::
  "'p hmmlearn \<Rightarrow> selector \<Rightarrow> int list \<Rightarrow> pyfloat \<times> 'p GaussianHMM option
     \<Rightarrow> pyfloat \<times> 'p GaussianHMM option" where
  "dic_loop lib self [] st = st"
| "dic_loop lib self (i # rest) st = dic_loop lib self rest (dic_iter lib self st i)"

definition SelectorDIC_select ::
  "'p hmmlearn \<Rightarrow> selector \<Rightarrow> exn + 'p GaussianHMM option" where
  "SelectorDIC_select lib self =
     (let highest_score = NegInf in
      py_then (base_model lib self (n_constant self)) (\<lambda>best_model.
        Inr (snd (dic_loop lib self [min_n_components self .. max_n_components self]
                    (highest_score, best_model)))))"

section \<open>SelectorCV\<close>

text \<open>
  Modelled from the spec: \<^verbatim>\<open>combine_sequences\<close> of \<^verbatim>\<open>asl_utils\<close> is not among the source
  files. It concatenates the segments named by an index list into one (features, lengths)
  pair; an index outside the list of sequences raises.
\<close>

fun combine_sequences :: "nat list \<Rightarrow> sequence list \<Rightarrow> exn + (frame list \<times> nat list)" where
  "combine_sequences [] seqs = Inr ([], [])"
| "combine_sequences (i # is) seqs =
     (if i < length seqs
      then py_then (combine_sequences is seqs)
             (\<lambda>(x, ls). Inr (seqs ! i @ x, length (seqs ! i) # ls))
      else Inl IndexError)"

text \<open>
  Line 157 constructs \<^verbatim>\<open>KFold(n_splits=splits)\<close> and then applies the object to
  \<^verbatim>\<open>self.sequences\<close>. The class offers \<^verbatim>\<open>split\<close> and \<^verbatim>\<open>get_n_splits\<close> but no
  \<^verbatim>\<open>__call__\<close>, so the application raises \<^verbatim>\<open>TypeError\<close> for every argument.
\<close>

record KFold =
  n_splits :: nat

definition KFold_call :: "KFold \<Rightarrow> sequence list \<Rightarrow> exn + (nat list \<times> nat list) list" where
  "KFold_call kf seqs = Inl TypeError"

text \<open>
  The body of the fold loop (lines 158 to 162) assigns \<^verbatim>\<open>self.X\<close> and \<^verbatim>\<open>self.lengths\<close>,
  so the selector object is threaded through and is returned also when an exception
  leaves the loop. The score call of line 162 passes the index vector \<^verbatim>\<open>train_idx\<close>.
\<close>

fun cv_folds ::
  "'p hmmlearn \<Rightarrow> selector \<Rightarrow> int \<Rightarrow> (nat list \<times> nat list) list \<Rightarrow> real list
     \<Rightarrow> selector \<times> (exn + real list)" where
  "cv_folds lib self idx [] scores_arr = (self, Inr scores_arr)"
| "cv_folds lib self idx ((train_idx, test_idx) # rest) scores_arr =
     (case combine_sequences test_idx (sequences self) of
        Inl e \<Rightarrow> (self, Inl e)
      | Inr (x, ls) \<Rightarrow>
         (let self1 = self\<lparr>X := Matrix x, lengths := ls\<rparr> in
          case combine_sequences train_idx (sequences self1) of
            Inl e \<Rightarrow> (self1, Inl e)
          | Inr (test_x, test_length) \<Rightarrow>
             (case py_then (base_model lib self1 idx)
                     (\<lambda>train_model. call_score lib train_model (IntVector train_idx) test_length) of
                Inl e \<Rightarrow> (self1, Inl e)
              | Inr s \<Rightarrow> cv_folds lib self1 idx rest (scores_arr @ [s]))))"

definition cv_candidate ::
  "'p hmmlearn \<Rightarrow> selector \<Rightarrow> int
     \<Rightarrow> selector \<times> (exn + ('p GaussianHMM option \<times> real list))" where
  "cv_candidate lib self idx =
     (let splits = 3 in
      case base_model lib self idx of
        Inl e \<Rightarrow> (self, Inl e)
      | Inr model \<Rightarrow>
         (case KFold_call \<lparr>n_splits = splits\<rparr> (sequences self) of
            Inl e \<Rightarrow> (self, Inl e)
          | Inr folds \<Rightarrow>
             (case cv_folds lib self idx folds [] of
                (self1, Inl e) \<Rightarrow> (self1, Inl e)
              | (self1, Inr scores_arr) \<Rightarrow> (self1, Inr (model, scores_arr)))))"

definition cv_iter ::
  "'p hmmlearn \<Rightarrow> selector \<times> pyfloat \<times> 'p GaussianHMM option \<Rightarrow> int
     \<Rightarrow> selector \<times> pyfloat \<times> 'p GaussianHMM option" where
  "cv_iter lib st idx =
     (case st of (self, highest_score, best_model) \<Rightarrow>
        (case cv_candidate lib self idx of
           (self1, Inr (model, scores_arr)) \<Rightarrow>
              if fl_gt (np_mean scores_arr) highest_score
              then (self1, np_mean scores_arr, model)
              else (self1, highest_score, best_model)
         | (self1, Inl e) \<Rightarrow> (self1, highest_score, best_model)))"

fun cv_loop ::
  "'p hmmlearn \<Rightarrow> int list \<Rightarrow> selector \<times> pyfloat \<times> 'p GaussianHMM option
     \<Rightarrow> selector \<times> pyfloat \<times> 'p GaussianHMM option" where
  "cv_loop lib [] st = st"
| "cv_loop lib (idx # rest) st = cv_loop lib rest (cv_iter lib st idx)"

definition SelectorCV_select ::
  "'p hmmlearn \<Rightarrow> selector \<Rightarrow> exn + 'p GaussianHMM option" where
  "SelectorCV_select lib self =
     (let highest_score = NegInf in
      py_then (base_model lib self (n_constant self)) (\<lambda>best_model.
        Inr (snd (snd (cv_loop lib [min_n_components self .. max_n_components self]
                         (self, highest_score, best_model))))))"

section \<open>Example inputs\<close>

text \<open>
  A small collection of three words and a stand-in for the library, used to evaluate
  the selectors on concrete data. Fitting fails for three states; scoring fails on empty
  data and otherwise prefers state counts close to three.
\<close>

definition demo_sequences :: word_sequences where
  "demo_sequences =
     [(''A'', [[[0]]]), (''B'', [[[1], [2]]]), (''C'', [[[1]], [[2]], [[3]]])]"

definition demo_Xlengths :: word_Xlengths where
  "demo_Xlengths =
     [(''A'', (Matrix [[0]], [1])), (''B'', (Matrix [[1], [2]], [2])),
      (''C'', (Matrix [[1], [2], [3]], [1, 1, 1]))]"

definition demo_lib :: "unit hmmlearn" where
  "demo_lib =
     \<lparr>hmm_fit = (\<lambda>n seed x ls. if n = 3 then Inl (LibraryError 0) else Inr (1, ())),
      hmm_score = (\<lambda>m x ls. if len x = 0 then Inl (LibraryError 1)
                     else Inr (- ((real_of_int (n_components m) - 3) ^ 2) * real (len x)))\<rparr>"

definition demo_A :: selector where
  "demo_A =
     \<lparr>words = demo_sequences, hwords = demo_Xlengths, sequences = [[[0]]],
      X = Matrix [[0]], lengths = [1], this_word = ''A'', n_constant = 3,
      min_n_components = 2, max_n_components = 4, random_state = 14, verbose = False\<rparr>"

definition demo_C :: selector where
  "demo_C =
     \<lparr>words = demo_sequences, hwords = demo_Xlengths, sequences = [[[1]], [[2]], [[3]]],
      X = Matrix [[1], [2], [3]], lengths = [1, 1, 1], this_word = ''C'', n_constant = 2,
      min_n_components = 2, max_n_components = 4, random_state = 14, verbose = False\<rparr>"

definition demo_single :: selector where
  "demo_single =
     \<lparr>words = [(''A'', [[[0]]])], hwords = [(''A'', (Matrix [[0]], [1]))],
      sequences = [[[0]]], X = Matrix [[0]], lengths = [1], this_word = ''A'',
      n_constant = 5, min_n_components = 2, max_n_components = 4, random_state = 14,
      verbose = False\<rparr>"

definition demo_empty :: selector where
  "demo_empty =
     \<lparr>words = [(''E'', [])], hwords = [(''E'', (Matrix [], []))],
      sequences = [], X = Matrix [], lengths = [], this_word = ''E'',
      n_constant = 2, min_n_components = 2, max_n_components = 4, random_state = 14,
      verbose = False\<rparr>"

section \<open>Basic facts\<close>

lemma py_then_Inl [simp]: "py_then (Inl e) f = Inl e"
  by (simp add: py_then_def)

lemma py_then_Inr [simp]: "py_then (Inr v) f = f v"
  by (simp add: py_then_def)

lemma py_then_eq_Inr:
  "py_then m f = Inr r \<longleftrightarrow> (\<exists>v. m = Inr v \<and> f v = Inr r)"
  by (cases m) simp_all

lemma base_model_cases:
  "base_model lib self n =
     Inr (case GaussianHMM_fit lib n (random_state self) (X self) (lengths self) of
            Inl e \<Rightarrow> None | Inr m \<Rightarrow> Some m)"
  by (simp add: base_model_def split: sum.splits)

lemma base_model_Some_components:
  "base_model lib self n = Inr (Some m) \<Longrightarrow> n_components m = n"
  by (auto simp: base_model_def GaussianHMM_fit_def py_then_eq_Inr split: sum.splits prod.splits)

lemma cv_candidate_raises: "cv_candidate lib self idx = (self, Inl TypeError)"
  by (simp add: cv_candidate_def KFold_call_def base_model_cases)

lemma cv_iter_skip: "cv_iter lib st idx = st"
  by (cases st) (simp add: cv_iter_def cv_candidate_raises)

lemma cv_loop_skip: "cv_loop lib cs st = st"
  by (induction cs arbitrary: st) (simp_all add: cv_iter_skip)

lemma cv_select_fallback:
  "SelectorCV_select lib self = base_model lib self (n_constant self)"
  by (simp add: SelectorCV_select_def cv_loop_skip base_model_cases)

lemma bic_candidate_Inr:
  "bic_candidate lib self n = Inr r \<Longrightarrow> \<exists>m s. r = (Some m, Fin s) \<and> base_model lib self n = Inr (Some m)"
  by (auto simp: bic_candidate_def py_then_eq_Inr getattr_n_features_def Let_def split: option.splits)

lemma dic_candidate_Inr:
  "dic_candidate lib self n = Inr r \<Longrightarrow>
     \<exists>m s. r = (Some m, s) \<and> (s = NaN \<or> (\<exists>x. s = Fin x)) \<and> base_model lib self n = Inr (Some m)"
  by (auto simp: dic_candidate_def py_then_eq_Inr call_score_def np_mean_def split: option.splits)

section \<open>The scan keeps the first best candidate\<close>

lemma bic_iter_cases:
  "bic_iter lib self (h, b) n =
     (case bic_candidate lib self n of
        Inl e \<Rightarrow> (h, b)
      | Inr (m, s) \<Rightarrow> if fl_lt s h then (s, m) else (h, b))"
  by (simp add: bic_iter_def split: sum.splits prod.splits)

lemma fl_lt_Fin_start:
  "h = PosInf \<or> (\<exists>x. h = Fin x) \<Longrightarrow> \<not> fl_lt (Fin s') h \<Longrightarrow> fl_lt (Fin s) h \<Longrightarrow> s < s'"
  by auto

lemma fl_lt_Fin_trans:
  "fl_lt (Fin s) (Fin t) \<Longrightarrow> fl_lt (Fin t) h \<Longrightarrow> fl_lt (Fin s) h"
  by (cases h) auto

lemma bic_loop_char:
  assumes "sorted_wrt (<) cs" and "h = PosInf \<or> (\<exists>x. h = Fin x)"
  shows "((\<forall>n\<in>set cs. \<forall>m s. bic_candidate lib self n = Inr (m, Fin s) \<longrightarrow> \<not> fl_lt (Fin s) h)
            \<and> bic_loop lib self cs (h, b) = (h, b))
       \<or> (\<exists>n\<in>set cs. \<exists>m s. bic_candidate lib self n = Inr (m, Fin s) \<and> fl_lt (Fin s) h
            \<and> bic_loop lib self cs (h, b) = (Fin s, m)
            \<and> (\<forall>n'\<in>set cs. \<forall>m' s'. bic_candidate lib self n' = Inr (m', Fin s')
                  \<longrightarrow> s \<le> s' \<and> (n' < n \<longrightarrow> s < s')))"
  using assms
proof (induction cs arbitrary: h b)
  case Nil
  then show ?case by simp
next
  case (Cons c cs)
  have sorted: "sorted_wrt (<) cs" and before: "\<forall>n\<in>set cs. c < n"
    using Cons.prems(1) by auto
  show ?case
  proof (cases "\<exists>m s. bic_candidate lib self c = Inr (m, Fin s) \<and> fl_lt (Fin s) h")
    case True
    then obtain m0 s0 where c0: "bic_candidate lib self c = Inr (m0, Fin s0)"
      and lt0: "fl_lt (Fin s0) h" by blast
    have step: "bic_iter lib self (h, b) c = (Fin s0, m0)"
      using c0 lt0 by (simp add: bic_iter_cases)
    have fin: "Fin s0 = PosInf \<or> (\<exists>x. Fin s0 = Fin x)" by simp
    from Cons.IH[OF sorted fin, of m0]
    show ?thesis
    proof
      assume keep: "(\<forall>n\<in>set cs. \<forall>m s. bic_candidate lib self n = Inr (m, Fin s) \<longrightarrow> \<not> fl_lt (Fin s) (Fin s0))
            \<and> bic_loop lib self cs (Fin s0, m0) = (Fin s0, m0)"
      have "\<forall>n'\<in>set (c # cs). \<forall>m' s'. bic_candidate lib self n' = Inr (m', Fin s')
                  \<longrightarrow> s0 \<le> s' \<and> (n' < c \<longrightarrow> s0 < s')"
        using keep c0 before by fastforce
      then show ?thesis using c0 lt0 step keep by auto
    next
      assume "\<exists>n\<in>set cs. \<exists>m s. bic_candidate lib self n = Inr (m, Fin s) \<and> fl_lt (Fin s) (Fin s0)
            \<and> bic_loop lib self cs (Fin s0, m0) = (Fin s, m)
            \<and> (\<forall>n'\<in>set cs. \<forall>m' s'. bic_candidate lib self n' = Inr (m', Fin s')
                  \<longrightarrow> s \<le> s' \<and> (n' < n \<longrightarrow> s < s'))"
      then obtain n m s where n: "n \<in> set cs" and cn: "bic_candidate lib self n = Inr (m, Fin s)"
        and lt: "fl_lt (Fin s) (Fin s0)"
        and res: "bic_loop lib self cs (Fin s0, m0) = (Fin s, m)"
        and best: "\<forall>n'\<in>set cs. \<forall>m' s'. bic_candidate lib self n' = Inr (m', Fin s')
                  \<longrightarrow> s \<le> s' \<and> (n' < n \<longrightarrow> s < s')" by blast
      have "fl_lt (Fin s) h" using lt lt0 by (rule fl_lt_Fin_trans)
      moreover have "\<forall>n'\<in>set (c # cs). \<forall>m' s'. bic_candidate lib self n' = Inr (m', Fin s')
                  \<longrightarrow> s \<le> s' \<and> (n' < n \<longrightarrow> s < s')"
        using best c0 lt by auto
      ultimately show ?thesis using n cn res step by auto
    qed
  next
    case False
    have step: "bic_iter lib self (h, b) c = (h, b)"
      using False bic_candidate_Inr[of lib self c]
      by (auto simp: bic_iter_cases split: sum.splits)
    from Cons.IH[OF sorted Cons.prems(2), of b]
    show ?thesis
    proof
      assume "(\<forall>n\<in>set cs. \<forall>m s. bic_candidate lib self n = Inr (m, Fin s) \<longrightarrow> \<not> fl_lt (Fin s) h)
            \<and> bic_loop lib self cs (h, b) = (h, b)"
      then show ?thesis using False step by auto
    next
      assume "\<exists>n\<in>set cs. \<exists>m s. bic_candidate lib self n = Inr (m, Fin s) \<and> fl_lt (Fin s) h
            \<and> bic_loop lib self cs (h, b) = (Fin s, m)
            \<and> (\<forall>n'\<in>set cs. \<forall>m' s'. bic_candidate lib self n' = Inr (m', Fin s')
                  \<longrightarrow> s \<le> s' \<and> (n' < n \<longrightarrow> s < s'))"
      then obtain n m s where n: "n \<in> set cs" and cn: "bic_candidate lib self n = Inr (m, Fin s)"
        and lt: "fl_lt (Fin s) h"
        and res: "bic_loop lib self cs (h, b) = (Fin s, m)"
        and best: "\<forall>n'\<in>set cs. \<forall>m' s'. bic_candidate lib self n' = Inr (m', Fin s')
                  \<longrightarrow> s \<le> s' \<and> (n' < n \<longrightarrow> s < s')" by blast
      have "\<forall>m' s'. bic_candidate lib self c = Inr (m', Fin s') \<longrightarrow> s < s'"
        using False lt fl_lt_Fin_start[OF Cons.prems(2)] by blast
      then have "\<forall>n'\<in>set (c # cs). \<forall>m' s'. bic_candidate lib self n' = Inr (m', Fin s')
                  \<longrightarrow> s \<le> s' \<and> (n' < n \<longrightarrow> s < s')"
        using best by auto
      then show ?thesis using n cn res step lt by auto
    qed
  qed
qed

lemma dic_iter_cases:
  "dic_iter lib self (h, b) n =
     (case dic_candidate lib self n of
        Inl e \<Rightarrow> (h, b)
      | Inr (m, s) \<Rightarrow> if fl_gt s h then (s, m) else (h, b))"
  by (simp add: dic_iter_def split: sum.splits prod.splits)

lemma fl_gt_NaN [simp]: "\<not> fl_gt NaN h"
  by (cases h) (simp_all add: fl_gt_def)

lemma fl_gt_Fin_start:
  "h = NegInf \<or> (\<exists>x. h = Fin x) \<Longrightarrow> \<not> fl_gt (Fin s') h \<Longrightarrow> fl_gt (Fin s) h \<Longrightarrow> s' < s"
  by (auto simp: fl_gt_def)

lemma fl_gt_Fin_trans:
  "fl_gt (Fin s) (Fin t) \<Longrightarrow> fl_gt (Fin t) h \<Longrightarrow> fl_gt (Fin s) h"
  by (cases h) (auto simp: fl_gt_def)

lemma dic_loop_char:
  assumes "sorted_wrt (<) cs" and "h = NegInf \<or> (\<exists>x. h = Fin x)"
  shows "((\<forall>n\<in>set cs. \<forall>m s. dic_candidate lib self n = Inr (m, Fin s) \<longrightarrow> \<not> fl_gt (Fin s) h)
            \<and> dic_loop lib self cs (h, b) = (h, b))
       \<or> (\<exists>n\<in>set cs. \<exists>m s. dic_candidate lib self n = Inr (m, Fin s) \<and> fl_gt (Fin s) h
            \<and> dic_loop lib self cs (h, b) = (Fin s, m)
            \<and> (\<forall>n'\<in>set cs. \<forall>m' s'. dic_candidate lib self n' = Inr (m', Fin s')
                  \<longrightarrow> s' \<le> s \<and> (n' < n \<longrightarrow> s' < s)))"
  using assms
proof (induction cs arbitrary: h b)
  case Nil
  then show ?case by simp
next
  case (Cons c cs)
  have sorted: "sorted_wrt (<) cs" and before: "\<forall>n\<in>set cs. c < n"
    using Cons.prems(1) by auto
  show ?case
  proof (cases "\<exists>m s. dic_candidate lib self c = Inr (m, Fin s) \<and> fl_gt (Fin s) h")
    case True
    then obtain m0 s0 where c0: "dic_candidate lib self c = Inr (m0, Fin s0)"
      and gt0: "fl_gt (Fin s0) h" by blast
    have step: "dic_iter lib self (h, b) c = (Fin s0, m0)"
      using c0 gt0 by (simp add: dic_iter_cases)
    have fin: "Fin s0 = NegInf \<or> (\<exists>x. Fin s0 = Fin x)" by simp
    from Cons.IH[OF sorted fin, of m0]
    show ?thesis
    proof
      assume keep: "(\<forall>n\<in>set cs. \<forall>m s. dic_candidate lib self n = Inr (m, Fin s) \<longrightarrow> \<not> fl_gt (Fin s) (Fin s0))
            \<and> dic_loop lib self cs (Fin s0, m0) = (Fin s0, m0)"
      have "\<forall>n'\<in>set (c # cs). \<forall>m' s'. dic_candidate lib self n' = Inr (m', Fin s')
                  \<longrightarrow> s' \<le> s0 \<and> (n' < c \<longrightarrow> s' < s0)"
        using keep c0 before by (fastforce simp: fl_gt_def)
      then show ?thesis using c0 gt0 step keep by auto
    next
      assume "\<exists>n\<in>set cs. \<exists>m s. dic_candidate lib self n = Inr (m, Fin s) \<and> fl_gt (Fin s) (Fin s0)
            \<and> dic_loop lib self cs (Fin s0, m0) = (Fin s, m)
            \<and> (\<forall>n'\<in>set cs. \<forall>m' s'. dic_candidate lib self n' = Inr (m', Fin s')
                  \<longrightarrow> s' \<le> s \<and> (n' < n \<longrightarrow> s' < s))"
      then obtain n m s where n: "n \<in> set cs" and cn: "dic_candidate lib self n = Inr (m, Fin s)"
        and gt: "fl_gt (Fin s) (Fin s0)"
        and res: "dic_loop lib self cs (Fin s0, m0) = (Fin s, m)"
        and best: "\<forall>n'\<in>set cs. \<forall>m' s'. dic_candidate lib self n' = Inr (m', Fin s')
                  \<longrightarrow> s' \<le> s \<and> (n' < n \<longrightarrow> s' < s)" by blast
      have "fl_gt (Fin s) h" using gt gt0 by (rule fl_gt_Fin_trans)
      moreover have "\<forall>n'\<in>set (c # cs). \<forall>m' s'. dic_candidate lib self n' = Inr (m', Fin s')
                  \<longrightarrow> s' \<le> s \<and> (n' < n \<longrightarrow> s' < s)"
        using best c0 gt by (auto simp: fl_gt_def)
      ultimately show ?thesis using n cn res step by auto
    qed
  next
    case False
    have step: "dic_iter lib self (h, b) c = (h, b)"
      using False dic_candidate_Inr[of lib self c]
      by (auto simp: dic_iter_cases split: sum.splits)
    from Cons.IH[OF sorted Cons.prems(2), of b]
    show ?thesis
    proof
      assume "(\<forall>n\<in>set cs. \<forall>m s. dic_candidate lib self n = Inr (m, Fin s) \<longrightarrow> \<not> fl_gt (Fin s) h)
            \<and> dic_loop lib self cs (h, b) = (h, b)"
      then show ?thesis using False step by auto
    next
      assume "\<exists>n\<in>set cs. \<exists>m s. dic_candidate lib self n = Inr (m, Fin s) \<and> fl_gt (Fin s) h
            \<and> dic_loop lib self cs (h, b) = (Fin s, m)
            \<and> (\<forall>n'\<in>set cs. \<forall>m' s'. dic_candidate lib self n' = Inr (m', Fin s')
                  \<longrightarrow> s' \<le> s \<and> (n' < n \<longrightarrow> s' < s))"
      then obtain n m s where n: "n \<in> set cs" and cn: "dic_candidate lib self n = Inr (m, Fin s)"
        and gt: "fl_gt (Fin s) h"
        and res: "dic_loop lib self cs (h, b) = (Fin s, m)"
        and best: "\<forall>n'\<in>set cs. \<forall>m' s'. dic_candidate lib self n' = Inr (m', Fin s')
                  \<longrightarrow> s' \<le> s \<and> (n' < n \<longrightarrow> s' < s)" by blast
      have "\<forall>m' s'. dic_candidate lib self c = Inr (m', Fin s') \<longrightarrow> s' < s"
        using False gt fl_gt_Fin_start[OF Cons.prems(2)] by blast
      then have "\<forall>n'\<in>set (c # cs). \<forall>m' s'. dic_candidate lib self n' = Inr (m', Fin s')
                  \<longrightarrow> s' \<le> s \<and> (n' < n \<longrightarrow> s' < s)"
        using best by auto
      then show ?thesis using n cn res step gt by auto
    qed
  qed
qed

lemma sorted_wrt_upto_int: "sorted_wrt (<) [i..j::int]"
  by (simp add: strict_sorted_iff)

lemma isl_iff_no_Inr: "isl v \<longleftrightarrow> (\<forall>r. v \<noteq> Inr r)"
  by (cases v) simp_all

lemma base_model_Inr: "\<exists>r. base_model lib self n = Inr r"
  by (simp add: base_model_cases)

lemma bic_select_cases:
  "((\<forall>n\<in>{min_n_components self .. max_n_components self}. isl (bic_candidate lib self n))
       \<and> SelectorBIC_select lib self = base_model lib self (n_constant self))
   \<or> (\<exists>n\<in>{min_n_components self .. max_n_components self}. \<exists>m s.
         bic_candidate lib self n = Inr (Some m, Fin s)
       \<and> SelectorBIC_select lib self = Inr (Some m)
       \<and> (\<forall>n'\<in>{min_n_components self .. max_n_components self}. \<forall>m' s'.
            bic_candidate lib self n' = Inr (m', Fin s') \<longrightarrow> s \<le> s' \<and> (n' < n \<longrightarrow> s < s')))"
proof -
  obtain b where b: "base_model lib self (n_constant self) = Inr b"
    using base_model_Inr by blast
  let ?cs = "[min_n_components self .. max_n_components self]"
  have sel: "SelectorBIC_select lib self = Inr (snd (bic_loop lib self ?cs (PosInf, b)))"
    by (simp add: SelectorBIC_select_def b)
  have start: "PosInf = PosInf \<or> (\<exists>x. PosInf = Fin x)" by simp
  from bic_loop_char[OF sorted_wrt_upto_int start, where lib = lib and self = self and b = b
      and i1 = "min_n_components self" and j1 = "max_n_components self"]
  show ?thesis
  proof
    assume a: "(\<forall>n\<in>set ?cs. \<forall>m s. bic_candidate lib self n = Inr (m, Fin s) \<longrightarrow> \<not> fl_lt (Fin s) PosInf)
            \<and> bic_loop lib self ?cs (PosInf, b) = (PosInf, b)"
    have "\<forall>n\<in>{min_n_components self .. max_n_components self}. isl (bic_candidate lib self n)"
    proof
      fix n assume "n \<in> {min_n_components self .. max_n_components self}"
      then have "\<forall>m s. bic_candidate lib self n \<noteq> Inr (m, Fin s)" using a by auto
      then show "isl (bic_candidate lib self n)"
        using bic_candidate_Inr[of lib self n] by (auto simp: isl_iff_no_Inr)
    qed
    then show ?thesis using a sel b by simp
  next
    assume "\<exists>n\<in>set ?cs. \<exists>m s. bic_candidate lib self n = Inr (m, Fin s) \<and> fl_lt (Fin s) PosInf
            \<and> bic_loop lib self ?cs (PosInf, b) = (Fin s, m)
            \<and> (\<forall>n'\<in>set ?cs. \<forall>m' s'. bic_candidate lib self n' = Inr (m', Fin s')
                  \<longrightarrow> s \<le> s' \<and> (n' < n \<longrightarrow> s < s'))"
    then obtain n m s where n: "n \<in> set ?cs" and cn: "bic_candidate lib self n = Inr (m, Fin s)"
        and res: "bic_loop lib self ?cs (PosInf, b) = (Fin s, m)"
        and best: "\<forall>n'\<in>set ?cs. \<forall>m' s'. bic_candidate lib self n' = Inr (m', Fin s')
                  \<longrightarrow> s \<le> s' \<and> (n' < n \<longrightarrow> s < s')" by blast
    obtain m1 where m1: "m = Some m1" using bic_candidate_Inr[OF cn] by auto
    show ?thesis using n cn res best m1 sel by auto
  qed
qed

lemma dic_select_cases:
  "((\<forall>n\<in>{min_n_components self .. max_n_components self}. \<forall>m s.
        dic_candidate lib self n \<noteq> Inr (m, Fin s))
       \<and> SelectorDIC_select lib self = base_model lib self (n_constant self))
   \<or> (\<exists>n\<in>{min_n_components self .. max_n_components self}. \<exists>m s.
         dic_candidate lib self n = Inr (Some m, Fin s)
       \<and> SelectorDIC_select lib self = Inr (Some m)
       \<and> (\<forall>n'\<in>{min_n_components self .. max_n_components self}. \<forall>m' s'.
            dic_candidate lib self n' = Inr (m', Fin s') \<longrightarrow> s' \<le> s \<and> (n' < n \<longrightarrow> s' < s)))"
proof -
  obtain b where b: "base_model lib self (n_constant self) = Inr b"
    using base_model_Inr by blast
  let ?cs = "[min_n_components self .. max_n_components self]"
  have sel: "SelectorDIC_select lib self = Inr (snd (dic_loop lib self ?cs (NegInf, b)))"
    by (simp add: SelectorDIC_select_def b)
  have start: "NegInf = NegInf \<or> (\<exists>x. NegInf = Fin x)" by simp
  from dic_loop_char[OF sorted_wrt_upto_int start, where lib = lib and self = self and b = b
      and i1 = "min_n_components self" and j1 = "max_n_components self"]
  show ?thesis
  proof
    assume a: "(\<forall>n\<in>set ?cs. \<forall>m s. dic_candidate lib self n = Inr (m, Fin s) \<longrightarrow> \<not> fl_gt (Fin s) NegInf)
            \<and> dic_loop lib self ?cs (NegInf, b) = (NegInf, b)"
    then have "\<forall>n\<in>{min_n_components self .. max_n_components self}. \<forall>m s.
        dic_candidate lib self n \<noteq> Inr (m, Fin s)"
      by (auto simp: fl_gt_def)
    then show ?thesis using a sel b by simp
  next
    assume "\<exists>n\<in>set ?cs. \<exists>m s. dic_candidate lib self n = Inr (m, Fin s) \<and> fl_gt (Fin s) NegInf
            \<and> dic_loop lib self ?cs (NegInf, b) = (Fin s, m)
            \<and> (\<forall>n'\<in>set ?cs. \<forall>m' s'. dic_candidate lib self n' = Inr (m', Fin s')
                  \<longrightarrow> s' \<le> s \<and> (n' < n \<longrightarrow> s' < s))"
    then obtain n m s where n: "n \<in> set ?cs" and cn: "dic_candidate lib self n = Inr (m, Fin s)"
        and res: "dic_loop lib self ?cs (NegInf, b) = (Fin s, m)"
        and best: "\<forall>n'\<in>set ?cs. \<forall>m' s'. dic_candidate lib self n' = Inr (m', Fin s')
                  \<longrightarrow> s' \<le> s \<and> (n' < n \<longrightarrow> s' < s)" by blast
    obtain m1 where m1: "m = Some m1" using dic_candidate_Inr[OF cn] by auto
    show ?thesis using n cn res best m1 sel by auto
  qed
qed

section \<open>Evaluating the selectors on the example inputs\<close>

lemmas demo_defs = demo_lib_def demo_A_def demo_C_def demo_single_def demo_empty_def
  demo_sequences_def demo_Xlengths_def

lemmas eval_defs = bic_candidate_def dic_candidate_def base_model_def GaussianHMM_fit_def
  getattr_n_features_def call_score_def math_log_def np_mean_def bic_iter_def dic_iter_def
  fl_gt_def SelectorBIC_select_def SelectorDIC_select_def SelectorConstant_select_def

section \<open>SelectorCV: what line 157 does\<close>

text \<open>
  Claim C1 says that SelectorCV fits each candidate on the training folds, scores it on
  the held-out folds and records the mean of the per-fold log-likelihoods. On the word
  \<open>C\<close> of the example, which has exactly three sequences, the evaluation of candidate 4
  stops with \<^verbatim>\<open>TypeError\<close> at the call of the \<^verbatim>\<open>KFold\<close> object before any fold is
  formed; the loop over all candidates leaves the running score at \<^verbatim>\<open>-inf\<close>, so no
  score is recorded, and the selector returns the model fitted with \<open>n_constant = 2\<close>.
\<close>

theorem SelectorCV_records_no_fold_score:
  "cv_candidate demo_lib demo_C 4 = (demo_C, Inl TypeError)
   \<and> cv_loop demo_lib [2..4] (demo_C, NegInf, None) = (demo_C, NegInf, None)
   \<and> SelectorCV_select demo_lib demo_C
       = Inr (Some \<lparr>n_components = 2, n_features = 1, fitted = ()\<rparr>)"
  by (simp add: cv_candidate_raises cv_loop_skip cv_select_fallback eval_defs demo_defs)

text \<open>
  Claim C2: for every selector object, \<open>SelectorCV.select\<close> returns what
  \<open>SelectorConstant.select\<close> returns. Every candidate iteration raises
  \<^verbatim>\<open>TypeError\<close> before the body of the fold loop runs, so an iteration changes neither
  the object nor the provisional best model and score.
\<close>

theorem SelectorCV_select_is_SelectorConstant_select:
  "SelectorCV_select lib self = SelectorConstant_select lib self
   \<and> snd (cv_candidate lib self idx) = Inl TypeError
   \<and> cv_iter lib (self, highest_score, best_model) idx = (self, highest_score, best_model)"
  by (simp add: cv_select_fallback SelectorConstant_select_def cv_candidate_raises cv_iter_skip)

theorem SelectorCV_select_is_SelectorConstant_select_witness:
  "SelectorCV_select demo_lib demo_C = SelectorConstant_select demo_lib demo_C
   \<and> SelectorConstant_select demo_lib demo_C
       = Inr (Some \<lparr>n_components = 2, n_features = 1, fitted = ()\<rparr>)
   \<and> snd (cv_candidate demo_lib demo_C 4) = Inl TypeError"
  using SelectorCV_select_is_SelectorConstant_select [of demo_lib demo_C 4 NegInf None]
  by (simp add: eval_defs demo_defs)

text \<open>
  Claim C9: for an item with fewer sequences than the fold count 3 (in particular one
  sequence), \<open>SelectorCV.select\<close> returns a value and raises nothing, and the value is
  the model of the Fixed strategy.
\<close>

theorem SelectorCV_select_few_sequences:
  assumes "length (sequences self) < 3"
  shows "\<exists>r. SelectorCV_select lib self = Inr r \<and> SelectorConstant_select lib self = Inr r"
  by (simp add: cv_select_fallback SelectorConstant_select_def base_model_cases)

theorem SelectorCV_select_few_sequences_witness:
  "length (sequences demo_A) = 1
   \<and> (\<exists>r. SelectorCV_select demo_lib demo_A = Inr r \<and> SelectorConstant_select demo_lib demo_A = Inr r)"
proof -
  have one: "length (sequences demo_A) = 1" by (simp add: demo_defs)
  then have few: "length (sequences demo_A) < 3" by simp
  show ?thesis using one SelectorCV_select_few_sequences [OF few, of demo_lib] by simp
qed

section \<open>SelectorBIC\<close>

lemma bic_candidate_Inr_formula:
  assumes "bic_candidate lib self n = Inr (Some m, Fin s)"
  shows "GaussianHMM_fit lib n (random_state self) (X self) (lengths self) = Inr m
     \<and> (\<exists>logL. hmm_score lib m (X self) (lengths self) = Inr logL
           \<and> s = - 2 * logL
                 + real_of_int (n ^ 2 + 2 * n * n_features m - 1) * ln (real (len (X self))))"
  using assms
  by (auto simp: bic_candidate_def py_then_eq_Inr base_model_def getattr_n_features_def
      call_score_def math_log_def Let_def split: sum.splits if_splits)

text \<open>
  Claim C3: for a selector built by the constructor for an item with features \<open>rows\<close>
  and lengths \<open>ls\<close>, if fitting \<open>n\<close> states on the item's own data gives the model
  \<open>m\<close>, scoring \<open>m\<close> on that data gives \<open>logL\<close>, and the item has at least one feature
  vector, then the score SelectorBIC computes for candidate \<open>n\<close> is
  \<open>-2 logL + p ln N\<close> with \<open>N\<close> the number of feature vectors and
  \<open>p = n\<^sup>2 + 2 n d - 1\<close>, \<open>d\<close> the model's feature count. This is the score the loop
  of \<open>select\<close> compares with the running lowest score, and it is the score \<open>select\<close>
  decides by: when \<open>n\<close> lies in the candidate range, \<open>select\<close> returns the model \<open>m'\<close>
  of a candidate \<open>n'\<close> whose score by the same formula is at most that of \<open>n\<close>, and
  strictly less when \<open>n'\<close> comes after \<open>n\<close>.
\<close>

theorem SelectorBIC_score_formula:
  assumes init: "ModelSelector_init all_word_sequences all_word_Xlengths word nc mn mx rs vb = Inr self"
    and item: "getitem all_word_Xlengths word = Inr (Matrix rows, ls)"
    and fit: "GaussianHMM_fit lib n rs (Matrix rows) ls = Inr m"
    and score: "hmm_score lib m (Matrix rows) ls = Inr logL"
    and rows: "rows \<noteq> []"
  shows "bic_candidate lib self n =
           Inr (Some m, Fin (- 2 * logL
                  + real_of_int (n ^ 2 + 2 * n * n_features m - 1) * ln (real (length rows))))
     \<and> bic_iter lib self (lowest_score, best_model) n =
          (if fl_lt (Fin (- 2 * logL
                  + real_of_int (n ^ 2 + 2 * n * n_features m - 1) * ln (real (length rows))))
                lowest_score
           then (Fin (- 2 * logL
                  + real_of_int (n ^ 2 + 2 * n * n_features m - 1) * ln (real (length rows))),
                 Some m)
           else (lowest_score, best_model))
     \<and> (n \<in> {mn .. mx} \<longrightarrow>
          (\<exists>n' m' logL'. n' \<in> {mn .. mx}
              \<and> GaussianHMM_fit lib n' rs (Matrix rows) ls = Inr m'
              \<and> hmm_score lib m' (Matrix rows) ls = Inr logL'
              \<and> SelectorBIC_select lib self = Inr (Some m')
              \<and> - 2 * logL' + real_of_int (n' ^ 2 + 2 * n' * n_features m' - 1)
                                 * ln (real (length rows))
                  \<le> - 2 * logL + real_of_int (n ^ 2 + 2 * n * n_features m - 1)
                                    * ln (real (length rows))
              \<and> (n < n' \<longrightarrow>
                  - 2 * logL' + real_of_int (n' ^ 2 + 2 * n' * n_features m' - 1)
                                  * ln (real (length rows))
                  < - 2 * logL + real_of_int (n ^ 2 + 2 * n * n_features m - 1)
                                   * ln (real (length rows)))))"
proof -
  let ?s = "- 2 * logL + real_of_int (n ^ 2 + 2 * n * n_features m - 1) * ln (real (length rows))"
  from init item have self: "X self = Matrix rows" "lengths self = ls" "random_state self = rs"
    "min_n_components self = mn" "max_n_components self = mx"
    by (auto simp: ModelSelector_init_def py_then_eq_Inr)
  have "base_model lib self n = Inr (Some m)"
    using fit self by (simp add: base_model_def)
  moreover have "math_log (len (X self)) = Inr (ln (real (length rows)))"
    using rows self by (simp add: math_log_def)
  ultimately have cand: "bic_candidate lib self n = Inr (Some m, Fin ?s)"
    using score self by (simp add: bic_candidate_def getattr_n_features_def call_score_def)
  have iter: "bic_iter lib self (lowest_score, best_model) n =
          (if fl_lt (Fin ?s) lowest_score then (Fin ?s, Some m) else (lowest_score, best_model))"
    using cand by (simp add: bic_iter_cases)
  have sel: "\<exists>n' m' logL'. n' \<in> {mn .. mx}
              \<and> GaussianHMM_fit lib n' rs (Matrix rows) ls = Inr m'
              \<and> hmm_score lib m' (Matrix rows) ls = Inr logL'
              \<and> SelectorBIC_select lib self = Inr (Some m')
              \<and> - 2 * logL' + real_of_int (n' ^ 2 + 2 * n' * n_features m' - 1)
                                 * ln (real (length rows)) \<le> ?s
              \<and> (n < n' \<longrightarrow>
                  - 2 * logL' + real_of_int (n' ^ 2 + 2 * n' * n_features m' - 1)
                                  * ln (real (length rows)) < ?s)"
    if range: "n \<in> {mn .. mx}"
    using bic_select_cases[of self lib]
  proof
    assume "(\<forall>k\<in>{min_n_components self .. max_n_components self}. isl (bic_candidate lib self k))
       \<and> SelectorBIC_select lib self = base_model lib self (n_constant self)"
    then have "isl (bic_candidate lib self n)" using range self by simp
    then show ?thesis using cand by simp
  next
    assume "\<exists>k\<in>{min_n_components self .. max_n_components self}. \<exists>mk sk.
         bic_candidate lib self k = Inr (Some mk, Fin sk)
       \<and> SelectorBIC_select lib self = Inr (Some mk)
       \<and> (\<forall>n'\<in>{min_n_components self .. max_n_components self}. \<forall>m' s'.
            bic_candidate lib self n' = Inr (m', Fin s') \<longrightarrow> sk \<le> s' \<and> (n' < k \<longrightarrow> sk < s'))"
    then obtain k mk sk where k: "k \<in> {mn .. mx}"
      and ck: "bic_candidate lib self k = Inr (Some mk, Fin sk)"
      and res: "SelectorBIC_select lib self = Inr (Some mk)"
      and best: "\<forall>n'\<in>{mn .. mx}. \<forall>m' s'.
            bic_candidate lib self n' = Inr (m', Fin s') \<longrightarrow> sk \<le> s' \<and> (n' < k \<longrightarrow> sk < s')"
      using self by auto
    from bic_candidate_Inr_formula[OF ck] self obtain logLk
      where fitk: "GaussianHMM_fit lib k rs (Matrix rows) ls = Inr mk"
        and scorek: "hmm_score lib mk (Matrix rows) ls = Inr logLk"
        and sk: "sk = - 2 * logLk + real_of_int (k ^ 2 + 2 * k * n_features mk - 1)
                                      * ln (real (length rows))"
      by auto
    from best range cand have "sk \<le> ?s \<and> (n < k \<longrightarrow> sk < ?s)" by blast
    then show ?thesis using k fitk scorek res sk by blast
  qed
  show ?thesis using cand iter sel by blast
qed

theorem SelectorBIC_score_formula_witness:
  "ModelSelector_init demo_sequences demo_Xlengths ''C'' 2 2 4 14 False = Inr demo_C
   \<and> getitem demo_Xlengths ''C'' = Inr (Matrix [[1], [2], [3]], [1, 1, 1])
   \<and> GaussianHMM_fit demo_lib 4 14 (Matrix [[1], [2], [3]]) [1, 1, 1]
       = Inr \<lparr>n_components = 4, n_features = 1, fitted = ()\<rparr>
   \<and> hmm_score demo_lib \<lparr>n_components = 4, n_features = 1, fitted = ()\<rparr>
       (Matrix [[1], [2], [3]]) [1, 1, 1] = Inr (- 3)
   \<and> bic_candidate demo_lib demo_C 4
       = Inr (Some \<lparr>n_components = 4, n_features = 1, fitted = ()\<rparr>, Fin (6 + 23 * ln 3))
   \<and> bic_iter demo_lib demo_C (PosInf, None) 4
       = (Fin (6 + 23 * ln 3), Some \<lparr>n_components = 4, n_features = 1, fitted = ()\<rparr>)
   \<and> SelectorBIC_select demo_lib demo_C
       = Inr (Some \<lparr>n_components = 2, n_features = 1, fitted = ()\<rparr>)
   \<and> (\<exists>n' m' logL'. n' \<in> {2 .. 4}
         \<and> GaussianHMM_fit demo_lib n' 14 (Matrix [[1], [2], [3]]) [1, 1, 1] = Inr m'
         \<and> hmm_score demo_lib m' (Matrix [[1], [2], [3]]) [1, 1, 1] = Inr logL'
         \<and> SelectorBIC_select demo_lib demo_C = Inr (Some m')
         \<and> - 2 * logL' + real_of_int (n' ^ 2 + 2 * n' * n_features m' - 1) * ln 3
             \<le> 6 + 23 * ln 3
         \<and> (4 < n' \<longrightarrow>
              - 2 * logL' + real_of_int (n' ^ 2 + 2 * n' * n_features m' - 1) * ln 3
              < 6 + 23 * ln 3))"
proof -
  let ?m4 = "\<lparr>n_components = 4, n_features = 1, fitted = ()\<rparr> :: unit GaussianHMM"
  have init: "ModelSelector_init demo_sequences demo_Xlengths ''C'' 2 2 4 14 False = Inr demo_C"
    by (simp add: ModelSelector_init_def getitem_def demo_defs)
  have item: "getitem demo_Xlengths ''C'' = Inr (Matrix [[1], [2], [3]], [1, 1, 1])"
    by (simp add: getitem_def demo_defs)
  have fit: "GaussianHMM_fit demo_lib 4 14 (Matrix [[1], [2], [3]]) [1, 1, 1] = Inr ?m4"
    by (simp add: GaussianHMM_fit_def demo_defs)
  have score: "hmm_score demo_lib ?m4 (Matrix [[1], [2], [3]]) [1, 1, 1] = Inr (- 3)"
    by (simp add: demo_defs)
  have rows: "[[1], [2], [3::real]] \<noteq> []" by simp
  have range: "(4::int) \<in> {2 .. 4}" by simp
  have sel: "SelectorBIC_select demo_lib demo_C
       = Inr (Some \<lparr>n_components = 2, n_features = 1, fitted = ()\<rparr>)"
    by (simp add: eval_defs demo_defs)
  note inst = SelectorBIC_score_formula [OF init item fit score rows, of PosInf None]
  from inst have cand: "bic_candidate demo_lib demo_C 4 = Inr (Some ?m4, Fin (6 + 23 * ln 3))"
    by simp
  from inst have iter: "bic_iter demo_lib demo_C (PosInf, None) 4
       = (Fin (6 + 23 * ln 3), Some ?m4)"
    by simp
  from inst range have "\<exists>n' m' logL'. n' \<in> {2 .. 4}
         \<and> GaussianHMM_fit demo_lib n' 14 (Matrix [[1], [2], [3]]) [1, 1, 1] = Inr m'
         \<and> hmm_score demo_lib m' (Matrix [[1], [2], [3]]) [1, 1, 1] = Inr logL'
         \<and> SelectorBIC_select demo_lib demo_C = Inr (Some m')
         \<and> - 2 * logL' + real_of_int (n' ^ 2 + 2 * n' * n_features m' - 1) * ln 3
             \<le> 6 + 23 * ln 3
         \<and> (4 < n' \<longrightarrow>
              - 2 * logL' + real_of_int (n' ^ 2 + 2 * n' * n_features m' - 1) * ln 3
              < 6 + 23 * ln 3)"
    by simp
  with init item fit score cand iter sel show ?thesis by blast
qed

lemma bic_iter_skip: "isl (bic_candidate lib self k) \<Longrightarrow> bic_iter lib self st k = st"
  by (cases "bic_candidate lib self k") (simp_all add: bic_iter_def)

lemma dic_iter_skip: "isl (dic_candidate lib self k) \<Longrightarrow> dic_iter lib self st k = st"
  by (cases "dic_candidate lib self k") (simp_all add: dic_iter_def)

lemma bic_candidate_fit_failed:
  "isl (GaussianHMM_fit lib k (random_state self) (X self) (lengths self))
     \<Longrightarrow> isl (bic_candidate lib self k)"
  using bic_candidate_Inr[of lib self k]
  by (cases "bic_candidate lib self k") (auto simp: base_model_def split: sum.splits)

text \<open>
  Claim C4: SelectorBIC scans the candidates in ascending order and returns the model of
  the candidate with the least BIC score, the smallest such candidate on a tie. A
  candidate whose fit failed has no score; a candidate without a score leaves the
  provisional best untouched. So whenever some candidate in the range has a score, the
  returned model is that of a candidate \<open>n\<close> which itself has a score, no scored
  candidate has a lower score, and every smaller scored candidate has a strictly higher one.
\<close>

theorem SelectorBIC_select_minimal:
  "(isl (GaussianHMM_fit lib k (random_state self) (X self) (lengths self))
      \<longrightarrow> isl (bic_candidate lib self k))
   \<and> (isl (bic_candidate lib self k) \<longrightarrow> bic_iter lib self st k = st)
   \<and> ((\<exists>n0\<in>{min_n_components self .. max_n_components self}. \<not> isl (bic_candidate lib self n0))
      \<longrightarrow> (\<exists>n m s. n \<in> {min_n_components self .. max_n_components self}
             \<and> bic_candidate lib self n = Inr (Some m, Fin s)
             \<and> SelectorBIC_select lib self = Inr (Some m)
             \<and> n_components m = n
             \<and> (\<forall>n'\<in>{min_n_components self .. max_n_components self}. \<forall>m' s'.
                   bic_candidate lib self n' = Inr (m', Fin s')
                     \<longrightarrow> s \<le> s' \<and> (n' < n \<longrightarrow> s < s'))))"
proof (intro conjI impI)
  assume "isl (GaussianHMM_fit lib k (random_state self) (X self) (lengths self))"
  then show "isl (bic_candidate lib self k)" by (rule bic_candidate_fit_failed)
next
  assume "isl (bic_candidate lib self k)"
  then show "bic_iter lib self st k = st" by (rule bic_iter_skip)
next
  assume ok: "\<exists>n0\<in>{min_n_components self .. max_n_components self}. \<not> isl (bic_candidate lib self n0)"
  from bic_select_cases[of self lib]
  show "\<exists>n m s. n \<in> {min_n_components self .. max_n_components self}
             \<and> bic_candidate lib self n = Inr (Some m, Fin s)
             \<and> SelectorBIC_select lib self = Inr (Some m)
             \<and> n_components m = n
             \<and> (\<forall>n'\<in>{min_n_components self .. max_n_components self}. \<forall>m' s'.
                   bic_candidate lib self n' = Inr (m', Fin s')
                     \<longrightarrow> s \<le> s' \<and> (n' < n \<longrightarrow> s < s'))"
  proof
    assume "(\<forall>n\<in>{min_n_components self .. max_n_components self}. isl (bic_candidate lib self n))
       \<and> SelectorBIC_select lib self = base_model lib self (n_constant self)"
    with ok show ?thesis by blast
  next
    assume "\<exists>n\<in>{min_n_components self .. max_n_components self}. \<exists>m s.
         bic_candidate lib self n = Inr (Some m, Fin s)
       \<and> SelectorBIC_select lib self = Inr (Some m)
       \<and> (\<forall>n'\<in>{min_n_components self .. max_n_components self}. \<forall>m' s'.
            bic_candidate lib self n' = Inr (m', Fin s') \<longrightarrow> s \<le> s' \<and> (n' < n \<longrightarrow> s < s'))"
    then obtain n m s where n: "n \<in> {min_n_components self .. max_n_components self}"
      and cn: "bic_candidate lib self n = Inr (Some m, Fin s)"
      and sel: "SelectorBIC_select lib self = Inr (Some m)"
      and best: "\<forall>n'\<in>{min_n_components self .. max_n_components self}. \<forall>m' s'.
            bic_candidate lib self n' = Inr (m', Fin s') \<longrightarrow> s \<le> s' \<and> (n' < n \<longrightarrow> s < s')"
      by blast
    have "n_components m = n"
      using bic_candidate_Inr[OF cn] base_model_Some_components by auto
    then show ?thesis using n cn sel best by blast
  qed
qed

theorem SelectorBIC_select_minimal_witness:
  "isl (GaussianHMM_fit demo_lib 3 (random_state demo_A) (X demo_A) (lengths demo_A))
   \<and> isl (bic_candidate demo_lib demo_A 3)
   \<and> bic_iter demo_lib demo_A (Fin 2, None) 3 = (Fin 2, None)
   \<and> bic_candidate demo_lib demo_A 2
       = Inr (Some \<lparr>n_components = 2, n_features = 1, fitted = ()\<rparr>, Fin 2)
   \<and> bic_candidate demo_lib demo_A 4
       = Inr (Some \<lparr>n_components = 4, n_features = 1, fitted = ()\<rparr>, Fin 2)
   \<and> SelectorBIC_select demo_lib demo_A
       = Inr (Some \<lparr>n_components = 2, n_features = 1, fitted = ()\<rparr>)
   \<and> (\<exists>n m s. n \<in> {min_n_components demo_A .. max_n_components demo_A}
             \<and> bic_candidate demo_lib demo_A n = Inr (Some m, Fin s)
             \<and> SelectorBIC_select demo_lib demo_A = Inr (Some m)
             \<and> n_components m = n
             \<and> (\<forall>n'\<in>{min_n_components demo_A .. max_n_components demo_A}. \<forall>m' s'.
                   bic_candidate demo_lib demo_A n' = Inr (m', Fin s')
                     \<longrightarrow> s \<le> s' \<and> (n' < n \<longrightarrow> s < s')))"
proof -
  have fit: "isl (GaussianHMM_fit demo_lib 3 (random_state demo_A) (X demo_A) (lengths demo_A))"
    by (simp add: GaussianHMM_fit_def demo_defs)
  have c2: "bic_candidate demo_lib demo_A 2
       = Inr (Some \<lparr>n_components = 2, n_features = 1, fitted = ()\<rparr>, Fin 2)"
    by (simp add: eval_defs demo_defs)
  have c4: "bic_candidate demo_lib demo_A 4
       = Inr (Some \<lparr>n_components = 4, n_features = 1, fitted = ()\<rparr>, Fin 2)"
    by (simp add: eval_defs demo_defs)
  have sel: "SelectorBIC_select demo_lib demo_A
       = Inr (Some \<lparr>n_components = 2, n_features = 1, fitted = ()\<rparr>)"
    by (simp add: eval_defs demo_defs)
  have ok: "\<exists>n0\<in>{min_n_components demo_A .. max_n_components demo_A}.
              \<not> isl (bic_candidate demo_lib demo_A n0)"
    using c2 by (intro bexI[of _ 2]) (simp_all add: demo_defs)
  note inst = SelectorBIC_select_minimal [of demo_lib 3 demo_A "(Fin 2, None)"]
  from inst fit have failed: "isl (bic_candidate demo_lib demo_A 3)" by blast
  from inst failed have skip: "bic_iter demo_lib demo_A (Fin 2, None) 3 = (Fin 2, None)" by blast
  from inst ok have "\<exists>n m s. n \<in> {min_n_components demo_A .. max_n_components demo_A}
             \<and> bic_candidate demo_lib demo_A n = Inr (Some m, Fin s)
             \<and> SelectorBIC_select demo_lib demo_A = Inr (Some m)
             \<and> n_components m = n
             \<and> (\<forall>n'\<in>{min_n_components demo_A .. max_n_components demo_A}. \<forall>m' s'.
                   bic_candidate demo_lib demo_A n' = Inr (m', Fin s')
                     \<longrightarrow> s \<le> s' \<and> (n' < n \<longrightarrow> s < s'))" by blast
  with fit failed skip c2 c4 sel show ?thesis by blast
qed

section \<open>SelectorDIC\<close>

lemma dic_others_scores:
  "list_all2 (\<lambda>(word, x, l) s. call_score lib model x l = Inr s)
      (filter (\<lambda>(word, d). word \<noteq> w) hw) others
     \<Longrightarrow> dic_others lib model w hw acc = Inr (acc @ others)"
proof (induction hw arbitrary: acc others)
  case Nil
  then show ?case by simp
next
  case (Cons item hw)
  obtain word x l where item: "item = (word, x, l)" by (cases item) auto
  show ?case
  proof (cases "word \<noteq> w")
    case True
    with Cons.prems item obtain s rest where others: "others = s # rest"
      and s: "call_score lib model x l = Inr s"
      and rest: "list_all2 (\<lambda>(word, x, l) s. call_score lib model x l = Inr s)
                   (filter (\<lambda>(word, d). word \<noteq> w) hw) rest"
      by (auto simp: list_all2_Cons1)
    from Cons.IH[OF rest, of "acc @ [s]"] show ?thesis
      using True item s others by simp
  next
    case False
    with Cons.prems item Cons.IH[of others acc] show ?thesis by simp
  qed
qed

lemma dic_others_fail:
  "(word, x, l) \<in> set hw \<Longrightarrow> word \<noteq> w \<Longrightarrow> isl (call_score lib model x l)
     \<Longrightarrow> isl (dic_others lib model w hw acc)"
proof (induction hw arbitrary: acc)
  case Nil
  then show ?case by simp
next
  case (Cons item hw)
  obtain word' x' l' where item: "item = (word', x', l')" by (cases item) auto
  show ?case
  proof (cases "item = (word, x, l)")
    case True
    with Cons.prems item show ?thesis
      by (cases "call_score lib model x l") simp_all
  next
    case False
    with Cons.prems have "(word, x, l) \<in> set hw" by simp
    from Cons.IH[OF this Cons.prems(2,3)] show ?thesis
      using item by (cases "call_score lib model x' l'") simp_all
  qed
qed

lemma dic_others_single:
  "\<forall>(word, d)\<in>set hw. word = w \<Longrightarrow> dic_others lib model w hw acc = Inr acc"
  by (induction hw arbitrary: acc) auto

lemma dic_candidate_fit_failed:
  "isl (GaussianHMM_fit lib k (random_state self) (X self) (lengths self))
     \<Longrightarrow> isl (dic_candidate lib self k)"
  using dic_candidate_Inr[of lib self k]
  by (cases "dic_candidate lib self k") (auto simp: base_model_def split: sum.splits)

lemma dic_candidate_other_failed:
  assumes "GaussianHMM_fit lib k (random_state self) (X self) (lengths self) = Inr mk"
    and "(word, x, l) \<in> set (hwords self)" and "word \<noteq> this_word self"
    and "isl (hmm_score lib mk x l)"
  shows "isl (dic_candidate lib self k)"
proof -
  have bm: "base_model lib self k = Inr (Some mk)" using assms(1) by (simp add: base_model_def)
  have "isl (call_score lib (Some mk) x l)" using assms(4) by (simp add: call_score_def)
  from dic_others_fail[OF assms(2,3) this, of "[]"]
  show ?thesis using bm
    by (cases "dic_others lib (Some mk) (this_word self) (hwords self) []")
       (simp_all add: dic_candidate_def)
qed

lemma dic_candidate_score:
  assumes "GaussianHMM_fit lib k (random_state self) (X self) (lengths self) = Inr mk"
    and "list_all2 (\<lambda>(word, x, l) s. hmm_score lib mk x l = Inr s)
           (filter (\<lambda>(word, d). word \<noteq> this_word self) (hwords self)) other_scores"
    and "hmm_score lib mk (X self) (lengths self) = Inr own_score"
  shows "dic_candidate lib self k
           = Inr (Some mk, fl_sub (Fin own_score) (np_mean other_scores))"
proof -
  have bm: "base_model lib self k = Inr (Some mk)" using assms(1) by (simp add: base_model_def)
  have "list_all2 (\<lambda>(word, x, l) s. call_score lib (Some mk) x l = Inr s)
           (filter (\<lambda>(word, d). word \<noteq> this_word self) (hwords self)) other_scores"
    using assms(2) by (simp add: call_score_def)
  from dic_others_scores[OF this, of "[]"]
  show ?thesis using bm assms(3) by (simp add: dic_candidate_def call_score_def)
qed

lemma dic_select_maximal:
  assumes ok: "\<exists>n0\<in>{min_n_components self .. max_n_components self}. \<exists>m0 s0.
                 dic_candidate lib self n0 = Inr (m0, Fin s0)"
  shows "\<exists>n m s. n \<in> {min_n_components self .. max_n_components self}
             \<and> dic_candidate lib self n = Inr (Some m, Fin s)
             \<and> SelectorDIC_select lib self = Inr (Some m)
             \<and> n_components m = n
             \<and> (\<forall>n'\<in>{min_n_components self .. max_n_components self}. \<forall>m' s'.
                   dic_candidate lib self n' = Inr (m', Fin s')
                     \<longrightarrow> s' \<le> s \<and> (n' < n \<longrightarrow> s' < s))"
  using dic_select_cases[of self lib]
proof
  assume "(\<forall>n\<in>{min_n_components self .. max_n_components self}. \<forall>m s.
        dic_candidate lib self n \<noteq> Inr (m, Fin s))
       \<and> SelectorDIC_select lib self = base_model lib self (n_constant self)"
  with ok show ?thesis by blast
next
  assume "\<exists>n\<in>{min_n_components self .. max_n_components self}. \<exists>m s.
         dic_candidate lib self n = Inr (Some m, Fin s)
       \<and> SelectorDIC_select lib self = Inr (Some m)
       \<and> (\<forall>n'\<in>{min_n_components self .. max_n_components self}. \<forall>m' s'.
            dic_candidate lib self n' = Inr (m', Fin s') \<longrightarrow> s' \<le> s \<and> (n' < n \<longrightarrow> s' < s))"
  then obtain n m s where n: "n \<in> {min_n_components self .. max_n_components self}"
    and cn: "dic_candidate lib self n = Inr (Some m, Fin s)"
    and sel: "SelectorDIC_select lib self = Inr (Some m)"
    and best: "\<forall>n'\<in>{min_n_components self .. max_n_components self}. \<forall>m' s'.
            dic_candidate lib self n' = Inr (m', Fin s') \<longrightarrow> s' \<le> s \<and> (n' < n \<longrightarrow> s' < s)"
    by blast
  have "n_components m = n"
    using dic_candidate_Inr[OF cn] base_model_Some_components by auto
  then show ?thesis using n cn sel best by blast
qed

text \<open>
  Claim C5: when the fit of candidate \<open>k\<close> gives \<open>mk\<close>, \<open>other_scores\<close> are the scores
  of \<open>mk\<close> on the data of every other word of the collection (in dictionary order) and
  \<open>own_score\<close> is its score on the word's own data, the score SelectorDIC computes is
  \<open>own_score\<close> minus the mean of \<open>other_scores\<close> (not-a-number when there is no other
  word, a real number otherwise). A candidate is skipped when its fit fails or when
  scoring any other word raises. Whenever some candidate has a real score, the returned
  model is that of a scored candidate with the greatest score, the smallest such
  candidate on a tie.
\<close>

theorem SelectorDIC_select_maximal:
  "(GaussianHMM_fit lib k (random_state self) (X self) (lengths self) = Inr mk
      \<and> list_all2 (\<lambda>(word, x, l) s. hmm_score lib mk x l = Inr s)
           (filter (\<lambda>(word, d). word \<noteq> this_word self) (hwords self)) other_scores
      \<and> hmm_score lib mk (X self) (lengths self) = Inr own_score
     \<longrightarrow> dic_candidate lib self k
           = Inr (Some mk, fl_sub (Fin own_score) (np_mean other_scores))
       \<and> (other_scores \<noteq> [] \<longrightarrow> dic_candidate lib self k
           = Inr (Some mk, Fin (own_score - sum_list other_scores / real (length other_scores)))))
   \<and> (isl (GaussianHMM_fit lib k (random_state self) (X self) (lengths self))
      \<longrightarrow> isl (dic_candidate lib self k))
   \<and> (GaussianHMM_fit lib k (random_state self) (X self) (lengths self) = Inr mk
      \<and> (word, x, l) \<in> set (hwords self) \<and> word \<noteq> this_word self
      \<and> isl (hmm_score lib mk x l)
     \<longrightarrow> isl (dic_candidate lib self k))
   \<and> (isl (dic_candidate lib self k) \<longrightarrow> dic_iter lib self st k = st)
   \<and> ((\<exists>n0\<in>{min_n_components self .. max_n_components self}. \<exists>m0 s0.
          dic_candidate lib self n0 = Inr (m0, Fin s0))
      \<longrightarrow> (\<exists>n m s. n \<in> {min_n_components self .. max_n_components self}
             \<and> dic_candidate lib self n = Inr (Some m, Fin s)
             \<and> SelectorDIC_select lib self = Inr (Some m)
             \<and> n_components m = n
             \<and> (\<forall>n'\<in>{min_n_components self .. max_n_components self}. \<forall>m' s'.
                   dic_candidate lib self n' = Inr (m', Fin s')
                     \<longrightarrow> s' \<le> s \<and> (n' < n \<longrightarrow> s' < s))))"
proof (intro conjI impI)
  assume a: "GaussianHMM_fit lib k (random_state self) (X self) (lengths self) = Inr mk
      \<and> list_all2 (\<lambda>(word, x, l) s. hmm_score lib mk x l = Inr s)
           (filter (\<lambda>(word, d). word \<noteq> this_word self) (hwords self)) other_scores
      \<and> hmm_score lib mk (X self) (lengths self) = Inr own_score"
  then show c: "dic_candidate lib self k
           = Inr (Some mk, fl_sub (Fin own_score) (np_mean other_scores))"
    using dic_candidate_score by blast
  assume "other_scores \<noteq> []"
  then show "dic_candidate lib self k
           = Inr (Some mk, Fin (own_score - sum_list other_scores / real (length other_scores)))"
    using c by (simp add: np_mean_def)
next
  assume "isl (GaussianHMM_fit lib k (random_state self) (X self) (lengths self))"
  then show "isl (dic_candidate lib self k)" by (rule dic_candidate_fit_failed)
next
  assume "GaussianHMM_fit lib k (random_state self) (X self) (lengths self) = Inr mk
      \<and> (word, x, l) \<in> set (hwords self) \<and> word \<noteq> this_word self
      \<and> isl (hmm_score lib mk x l)"
  then show "isl (dic_candidate lib self k)" using dic_candidate_other_failed by blast
next
  assume "isl (dic_candidate lib self k)"
  then show "dic_iter lib self st k = st" by (rule dic_iter_skip)
next
  assume "\<exists>n0\<in>{min_n_components self .. max_n_components self}. \<exists>m0 s0.
          dic_candidate lib self n0 = Inr (m0, Fin s0)"
  then show "\<exists>n m s. n \<in> {min_n_components self .. max_n_components self}
             \<and> dic_candidate lib self n = Inr (Some m, Fin s)
             \<and> SelectorDIC_select lib self = Inr (Some m)
             \<and> n_components m = n
             \<and> (\<forall>n'\<in>{min_n_components self .. max_n_components self}. \<forall>m' s'.
                   dic_candidate lib self n' = Inr (m', Fin s')
                     \<longrightarrow> s' \<le> s \<and> (n' < n \<longrightarrow> s' < s))"
    by (rule dic_select_maximal)
qed

theorem SelectorDIC_select_maximal_witness:
  "GaussianHMM_fit demo_lib 2 (random_state demo_A) (X demo_A) (lengths demo_A)
       = Inr \<lparr>n_components = 2, n_features = 1, fitted = ()\<rparr>
   \<and> dic_candidate demo_lib demo_A 2
       = Inr (Some \<lparr>n_components = 2, n_features = 1, fitted = ()\<rparr>, Fin (3 / 2))
   \<and> isl (dic_candidate demo_lib demo_A 3)
   \<and> dic_iter demo_lib demo_A (Fin 0, None) 3 = (Fin 0, None)
   \<and> isl (dic_candidate demo_lib (demo_A\<lparr>hwords := (''E'', Matrix [], []) # demo_Xlengths\<rparr>) 2)
   \<and> dic_candidate demo_lib demo_A 4
       = Inr (Some \<lparr>n_components = 4, n_features = 1, fitted = ()\<rparr>, Fin (3 / 2))
   \<and> SelectorDIC_select demo_lib demo_A
       = Inr (Some \<lparr>n_components = 2, n_features = 1, fitted = ()\<rparr>)
   \<and> (\<exists>n m s. n \<in> {min_n_components demo_A .. max_n_components demo_A}
             \<and> dic_candidate demo_lib demo_A n = Inr (Some m, Fin s)
             \<and> SelectorDIC_select demo_lib demo_A = Inr (Some m)
             \<and> n_components m = n
             \<and> (\<forall>n'\<in>{min_n_components demo_A .. max_n_components demo_A}. \<forall>m' s'.
                   dic_candidate demo_lib demo_A n' = Inr (m', Fin s')
                     \<longrightarrow> s' \<le> s \<and> (n' < n \<longrightarrow> s' < s)))"
proof -
  let ?m2 = "\<lparr>n_components = 2, n_features = 1, fitted = ()\<rparr> :: unit GaussianHMM"
  let ?withE = "demo_A\<lparr>hwords := (''E'', Matrix [], []) # demo_Xlengths\<rparr>"
  have fit2: "GaussianHMM_fit demo_lib 2 (random_state demo_A) (X demo_A) (lengths demo_A)
       = Inr ?m2"
    by (simp add: GaussianHMM_fit_def demo_defs)
  have others: "list_all2 (\<lambda>(word, x, l) s. hmm_score demo_lib ?m2 x l = Inr s)
           (filter (\<lambda>(word, d). word \<noteq> this_word demo_A) (hwords demo_A)) [- 2, - 3]"
    by (simp add: demo_defs)
  have own: "hmm_score demo_lib ?m2 (X demo_A) (lengths demo_A) = Inr (- 1)"
    by (simp add: demo_defs)
  have ne: "[- 2, - 3 :: real] \<noteq> []" by simp
  have fit3: "isl (GaussianHMM_fit demo_lib 3 (random_state demo_A) (X demo_A) (lengths demo_A))"
    by (simp add: GaussianHMM_fit_def demo_defs)
  have fitE: "GaussianHMM_fit demo_lib 2 (random_state ?withE) (X ?withE) (lengths ?withE)
       = Inr ?m2"
    by (simp add: GaussianHMM_fit_def demo_defs)
  have itemE: "(''E'', Matrix [], []) \<in> set (hwords ?withE)" by simp
  have wordE: "''E'' \<noteq> this_word ?withE" by (simp add: demo_defs)
  have failE: "isl (hmm_score demo_lib ?m2 (Matrix []) [])" by (simp add: demo_defs)
  have c4: "dic_candidate demo_lib demo_A 4
       = Inr (Some \<lparr>n_components = 4, n_features = 1, fitted = ()\<rparr>, Fin (3 / 2))"
    by (simp add: eval_defs demo_defs)
  have sel: "SelectorDIC_select demo_lib demo_A
       = Inr (Some \<lparr>n_components = 2, n_features = 1, fitted = ()\<rparr>)"
    by (simp add: eval_defs demo_defs)
  from SelectorDIC_select_maximal [of demo_lib 2 demo_A ?m2 "[- 2, - 3]" "- 1"]
    fit2 others own ne
  have "dic_candidate demo_lib demo_A 2
          = Inr (Some ?m2, Fin (- 1 - sum_list [- 2, - 3] / real (length [- 2, - 3 :: real])))"
    by blast
  then have c2: "dic_candidate demo_lib demo_A 2 = Inr (Some ?m2, Fin (3 / 2))" by simp
  from SelectorDIC_select_maximal [of demo_lib 3 demo_A _ _ _ _ _ _ "(Fin 0, None)"] fit3
  have failed: "isl (dic_candidate demo_lib demo_A 3)"
    and skip: "dic_iter demo_lib demo_A (Fin 0, None) 3 = (Fin 0, None)" by blast+
  from SelectorDIC_select_maximal [of demo_lib 2 ?withE ?m2 _ _ "''E''" "Matrix []" "[]"]
    fitE itemE wordE failE
  have failedE: "isl (dic_candidate demo_lib ?withE 2)" by blast
  have in_range: "2 \<in> {min_n_components demo_A .. max_n_components demo_A}"
    by (simp add: demo_defs)
  have ok: "\<exists>n0\<in>{min_n_components demo_A .. max_n_components demo_A}. \<exists>m0 s0.
          dic_candidate demo_lib demo_A n0 = Inr (m0, Fin s0)"
    using c2 in_range by blast
  from SelectorDIC_select_maximal [of demo_lib 2 demo_A] ok
  have "\<exists>n m s. n \<in> {min_n_components demo_A .. max_n_components demo_A}
             \<and> dic_candidate demo_lib demo_A n = Inr (Some m, Fin s)
             \<and> SelectorDIC_select demo_lib demo_A = Inr (Some m)
             \<and> n_components m = n
             \<and> (\<forall>n'\<in>{min_n_components demo_A .. max_n_components demo_A}. \<forall>m' s'.
                   dic_candidate demo_lib demo_A n' = Inr (m', Fin s')
                     \<longrightarrow> s' \<le> s \<and> (n' < n \<longrightarrow> s' < s))" by blast
  with fit2 c2 failed skip failedE c4 sel show ?thesis by blast
qed

lemma dic_iter_single:
  assumes "\<forall>(word, d)\<in>set (hwords self). word = this_word self"
  shows "dic_iter lib self st n = st"
proof (cases "dic_candidate lib self n")
  case (Inl e)
  then show ?thesis by (simp add: dic_iter_def)
next
  case (Inr r)
  then have "snd r = NaN"
    by (auto simp: dic_candidate_def py_then_eq_Inr np_mean_def dic_others_single[OF assms])
  then show ?thesis using Inr by (cases r) (simp add: dic_iter_def)
qed

lemma dic_loop_single:
  assumes "\<forall>(word, d)\<in>set (hwords self). word = this_word self"
  shows "dic_loop lib self cs st = st"
  by (induction cs arbitrary: st) (simp_all add: dic_iter_single[OF assms])

text \<open>
  Claim C10: when the collection holds no word but the target, the inner loop of
  SelectorDIC collects no score, the mean of the empty list is not-a-number, every
  candidate that reaches a score has the score not-a-number, which never compares
  greater than the running best, so no iteration changes the provisional best and the
  model fitted with \<open>n_constant\<close> states is returned.
\<close>

theorem SelectorDIC_single_item:
  assumes "\<forall>(word, d)\<in>set (hwords self). word = this_word self"
  shows "dic_others lib model (this_word self) (hwords self) [] = Inr []
     \<and> np_mean [] = NaN
     \<and> (\<forall>n m s. dic_candidate lib self n = Inr (m, s) \<longrightarrow> s = NaN)
     \<and> (\<forall>h. \<not> fl_gt NaN h)
     \<and> dic_iter lib self (highest_score, best_model) i = (highest_score, best_model)
     \<and> SelectorDIC_select lib self = SelectorConstant_select lib self"
proof -
  have "dic_others lib model (this_word self) (hwords self) [] = Inr []"
    by (rule dic_others_single[OF assms])
  moreover have "\<forall>n m s. dic_candidate lib self n = Inr (m, s) \<longrightarrow> s = NaN"
    by (auto simp: dic_candidate_def py_then_eq_Inr np_mean_def dic_others_single[OF assms])
  moreover have "SelectorDIC_select lib self = SelectorConstant_select lib self"
    by (simp add: SelectorDIC_select_def SelectorConstant_select_def dic_loop_single[OF assms]
        base_model_cases)
  ultimately show ?thesis
    by (simp add: np_mean_def dic_iter_single[OF assms])
qed

theorem SelectorDIC_single_item_witness:
  "hwords demo_single = [(''A'', Matrix [[0]], [1])]
   \<and> this_word demo_single = ''A''
   \<and> dic_candidate demo_lib demo_single 2
       = Inr (Some \<lparr>n_components = 2, n_features = 1, fitted = ()\<rparr>, NaN)
   \<and> SelectorConstant_select demo_lib demo_single
       = Inr (Some \<lparr>n_components = 5, n_features = 1, fitted = ()\<rparr>)
   \<and> SelectorDIC_select demo_lib demo_single = SelectorConstant_select demo_lib demo_single"
proof -
  have only: "\<forall>(word, d)\<in>set (hwords demo_single). word = this_word demo_single"
    by (simp add: demo_defs)
  have "dic_candidate demo_lib demo_single 2
       = Inr (Some \<lparr>n_components = 2, n_features = 1, fitted = ()\<rparr>, NaN)"
    by (simp add: eval_defs demo_defs)
  moreover have "SelectorConstant_select demo_lib demo_single
       = Inr (Some \<lparr>n_components = 5, n_features = 1, fitted = ()\<rparr>)"
    by (simp add: eval_defs demo_defs)
  ultimately show ?thesis
    using SelectorDIC_single_item [OF only, of demo_lib] by (simp add: demo_defs)
qed

section \<open>All strategies: fallback, state counts, exceptions\<close>

lemma constant_select_base: "SelectorConstant_select lib self = base_model lib self (n_constant self)"
  by (simp add: SelectorConstant_select_def)

lemma bic_select_fallback:
  assumes "\<forall>n\<in>{min_n_components self .. max_n_components self}. isl (bic_candidate lib self n)"
  shows "SelectorBIC_select lib self = SelectorConstant_select lib self"
  using bic_select_cases[of self lib] assms by (auto simp: constant_select_base)

lemma dic_select_fallback:
  assumes "\<forall>n\<in>{min_n_components self .. max_n_components self}. isl (dic_candidate lib self n)"
  shows "SelectorDIC_select lib self = SelectorConstant_select lib self"
  using dic_select_cases[of self lib] assms by (auto simp: constant_select_base)

lemma bic_select_origin:
  "SelectorBIC_select lib self = base_model lib self (n_constant self)
   \<or> (\<exists>n\<in>{min_n_components self .. max_n_components self}. \<exists>m.
         SelectorBIC_select lib self = Inr (Some m) \<and> base_model lib self n = Inr (Some m))"
  using bic_select_cases[of self lib] bic_candidate_Inr[of lib self] by fastforce

lemma dic_select_origin:
  "SelectorDIC_select lib self = base_model lib self (n_constant self)
   \<or> (\<exists>n\<in>{min_n_components self .. max_n_components self}. \<exists>m.
         SelectorDIC_select lib self = Inr (Some m) \<and> base_model lib self n = Inr (Some m))"
  using dic_select_cases[of self lib] dic_candidate_Inr[of lib self] by fastforce

lemma base_model_None_fit:
  "base_model lib self n = Inr None
     \<Longrightarrow> isl (GaussianHMM_fit lib n (random_state self) (X self) (lengths self))"
  by (simp add: base_model_def split: sum.splits)

text \<open>
  Claim C6: for each searching strategy (BIC, DIC, CV), if every candidate in the range
  fails, \<open>select\<close> returns what the Fixed strategy returns, the model fitted with
  \<open>n_constant\<close> states; and whenever one of them returns \<^verbatim>\<open>None\<close>, the fit with
  \<open>n_constant\<close> states on the item's data failed.
\<close>

theorem select_falls_back_to_constant:
  "((\<forall>n\<in>{min_n_components self .. max_n_components self}. isl (bic_candidate lib self n))
      \<longrightarrow> SelectorBIC_select lib self = SelectorConstant_select lib self)
   \<and> ((\<forall>n\<in>{min_n_components self .. max_n_components self}. isl (dic_candidate lib self n))
      \<longrightarrow> SelectorDIC_select lib self = SelectorConstant_select lib self)
   \<and> ((\<forall>n\<in>{min_n_components self .. max_n_components self}. isl (snd (cv_candidate lib self n)))
      \<longrightarrow> SelectorCV_select lib self = SelectorConstant_select lib self)
   \<and> SelectorConstant_select lib self = base_model lib self (n_constant self)
   \<and> (\<forall>select\<in>{SelectorBIC_select, SelectorDIC_select, SelectorCV_select}.
         select lib self = Inr None
           \<longrightarrow> isl (GaussianHMM_fit lib (n_constant self) (random_state self) (X self)
                      (lengths self)))"
proof (intro conjI impI ballI)
  assume "\<forall>n\<in>{min_n_components self .. max_n_components self}. isl (bic_candidate lib self n)"
  then show "SelectorBIC_select lib self = SelectorConstant_select lib self"
    by (rule bic_select_fallback)
next
  assume "\<forall>n\<in>{min_n_components self .. max_n_components self}. isl (dic_candidate lib self n)"
  then show "SelectorDIC_select lib self = SelectorConstant_select lib self"
    by (rule dic_select_fallback)
next
  show "SelectorCV_select lib self = SelectorConstant_select lib self"
    by (simp add: cv_select_fallback constant_select_base)
next
  show "SelectorConstant_select lib self = base_model lib self (n_constant self)"
    by (rule constant_select_base)
next
  fix select :: "'a hmmlearn \<Rightarrow> selector \<Rightarrow> exn + 'a GaussianHMM option"
  assume sel: "select \<in> {SelectorBIC_select, SelectorDIC_select, SelectorCV_select}"
    and none: "select lib self = Inr None"
  have "base_model lib self (n_constant self) = Inr None"
    using sel none bic_select_origin[of lib self] dic_select_origin[of lib self]
      cv_select_fallback[of lib self] by auto
  then show "isl (GaussianHMM_fit lib (n_constant self) (random_state self) (X self)
                      (lengths self))"
    by (rule base_model_None_fit)
qed

theorem select_falls_back_to_constant_witness:
  "(\<forall>n. isl (bic_candidate demo_lib demo_empty n))
   \<and> (\<forall>n. isl (dic_candidate demo_lib demo_empty n))
   \<and> (\<forall>n. isl (snd (cv_candidate demo_lib demo_empty n)))
   \<and> SelectorConstant_select demo_lib demo_empty
       = Inr (Some \<lparr>n_components = 2, n_features = 1, fitted = ()\<rparr>)
   \<and> SelectorBIC_select demo_lib demo_empty = SelectorConstant_select demo_lib demo_empty
   \<and> SelectorDIC_select demo_lib demo_empty = SelectorConstant_select demo_lib demo_empty
   \<and> SelectorCV_select demo_lib demo_empty = SelectorConstant_select demo_lib demo_empty
   \<and> SelectorBIC_select demo_lib (demo_empty\<lparr>n_constant := 3\<rparr>) = Inr None
   \<and> isl (GaussianHMM_fit demo_lib (n_constant (demo_empty\<lparr>n_constant := 3\<rparr>))
           (random_state (demo_empty\<lparr>n_constant := 3\<rparr>)) (X (demo_empty\<lparr>n_constant := 3\<rparr>))
           (lengths (demo_empty\<lparr>n_constant := 3\<rparr>)))"
proof -
  let ?three = "demo_empty\<lparr>n_constant := 3\<rparr>"
  have bic: "\<forall>n. isl (bic_candidate demo_lib demo_empty n)"
    by (simp add: eval_defs demo_defs)
  have dic: "\<forall>n. isl (dic_candidate demo_lib demo_empty n)"
    by (simp add: eval_defs demo_defs)
  have cv: "\<forall>n. isl (snd (cv_candidate demo_lib demo_empty n))"
    by (simp add: cv_candidate_raises)
  have const: "SelectorConstant_select demo_lib demo_empty
       = Inr (Some \<lparr>n_components = 2, n_features = 1, fitted = ()\<rparr>)"
    by (simp add: eval_defs demo_defs)
  have none: "SelectorBIC_select demo_lib ?three = Inr None"
    by (simp add: eval_defs demo_defs)
  note inst = select_falls_back_to_constant [of demo_empty demo_lib]
  from inst bic have a: "SelectorBIC_select demo_lib demo_empty
      = SelectorConstant_select demo_lib demo_empty" by blast
  from inst dic have b: "SelectorDIC_select demo_lib demo_empty
      = SelectorConstant_select demo_lib demo_empty" by blast
  from inst cv have c: "SelectorCV_select demo_lib demo_empty
      = SelectorConstant_select demo_lib demo_empty" by blast
  from select_falls_back_to_constant [of ?three demo_lib] none
  have d: "isl (GaussianHMM_fit demo_lib (n_constant ?three) (random_state ?three) (X ?three)
      (lengths ?three))" by blast
  from bic dic cv const a b c none d show ?thesis by blast
qed

text \<open>
  Claim C7: for each of the four strategies, a returned model has a state count in
  \<open>[min_n_components, max_n_components]\<close> or equal to \<open>n_constant\<close>.
\<close>

theorem select_components_in_range:
  assumes "select \<in> {SelectorConstant_select, SelectorBIC_select, SelectorDIC_select,
                       SelectorCV_select}"
    and "select lib self = Inr (Some m)"
  shows "n_components m \<in> {min_n_components self .. max_n_components self} \<union> {n_constant self}"
proof -
  have "base_model lib self (n_constant self) = Inr (Some m)
        \<or> (\<exists>n\<in>{min_n_components self .. max_n_components self}.
              base_model lib self n = Inr (Some m))"
    using assms bic_select_origin[of lib self] dic_select_origin[of lib self]
      cv_select_fallback[of lib self] constant_select_base[of lib self] by auto
  then show ?thesis using base_model_Some_components by blast
qed

theorem select_components_in_range_witness:
  "SelectorBIC_select demo_lib demo_C
     = Inr (Some \<lparr>n_components = 2, n_features = 1, fitted = ()\<rparr>)
   \<and> SelectorDIC_select demo_lib demo_single
     = Inr (Some \<lparr>n_components = 5, n_features = 1, fitted = ()\<rparr>)
   \<and> n_components \<lparr>n_components = 2, n_features = 1, fitted = ()\<rparr>
       \<in> {min_n_components demo_C .. max_n_components demo_C} \<union> {n_constant demo_C}
   \<and> n_components \<lparr>n_components = 5, n_features = 1, fitted = ()\<rparr>
       \<in> {min_n_components demo_single .. max_n_components demo_single}
          \<union> {n_constant demo_single}"
proof -
  have bic: "SelectorBIC_select demo_lib demo_C
     = Inr (Some \<lparr>n_components = 2, n_features = 1, fitted = ()\<rparr>)"
    by (simp add: eval_defs demo_defs)
  have dic: "SelectorDIC_select demo_lib demo_single
     = Inr (Some \<lparr>n_components = 5, n_features = 1, fitted = ()\<rparr>)"
    by (simp add: eval_defs demo_defs)
  have m1: "SelectorBIC_select \<in> {SelectorConstant_select, SelectorBIC_select,
      SelectorDIC_select, SelectorCV_select :: unit hmmlearn \<Rightarrow> selector \<Rightarrow> exn + unit GaussianHMM option}"
    by simp
  have m2: "SelectorDIC_select \<in> {SelectorConstant_select, SelectorBIC_select,
      SelectorDIC_select, SelectorCV_select :: unit hmmlearn \<Rightarrow> selector \<Rightarrow> exn + unit GaussianHMM option}"
    by simp
  from select_components_in_range [OF m1 bic] select_components_in_range [OF m2 dic] bic dic
  show ?thesis by blast
qed

text \<open>
  Claim C8: \<open>base_model\<close> never raises and turns a failed fit into \<^verbatim>\<open>None\<close>; in each
  strategy an exception inside a candidate's evaluation leaves the provisional best
  untouched; and each of the four \<open>select\<close> functions returns a value (a model or
  \<^verbatim>\<open>None\<close>), never an exception.
\<close>

theorem select_never_raises:
  "\<not> isl (base_model lib self n)
   \<and> (isl (GaussianHMM_fit lib n (random_state self) (X self) (lengths self))
        \<longrightarrow> base_model lib self n = Inr None)
   \<and> (isl (bic_candidate lib self n) \<longrightarrow> bic_iter lib self st n = st)
   \<and> (isl (dic_candidate lib self n) \<longrightarrow> dic_iter lib self st n = st)
   \<and> (isl (snd (cv_candidate lib self n)) \<longrightarrow> cv_iter lib (self, st) n = (self, st))
   \<and> (\<forall>select\<in>{SelectorConstant_select, SelectorBIC_select, SelectorDIC_select,
                  SelectorCV_select}. \<exists>r. select lib self = Inr r)"
proof (intro conjI impI ballI)
  show "\<not> isl (base_model lib self n)" by (simp add: base_model_cases)
next
  assume "isl (GaussianHMM_fit lib n (random_state self) (X self) (lengths self))"
  then show "base_model lib self n = Inr None"
    by (cases "GaussianHMM_fit lib n (random_state self) (X self) (lengths self)")
       (simp_all add: base_model_def)
next
  assume "isl (bic_candidate lib self n)"
  then show "bic_iter lib self st n = st" by (rule bic_iter_skip)
next
  assume "isl (dic_candidate lib self n)"
  then show "dic_iter lib self st n = st" by (rule dic_iter_skip)
next
  show "cv_iter lib (self, st) n = (self, st)" by (rule cv_iter_skip)
next
  fix select :: "'a hmmlearn \<Rightarrow> selector \<Rightarrow> exn + 'a GaussianHMM option"
  assume "select \<in> {SelectorConstant_select, SelectorBIC_select, SelectorDIC_select,
                  SelectorCV_select}"
  then show "\<exists>r. select lib self = Inr r"
    using base_model_Inr[of lib self "n_constant self"] bic_select_origin[of lib self]
      dic_select_origin[of lib self] cv_select_fallback[of lib self]
      constant_select_base[of lib self] by auto
qed

theorem select_never_raises_witness:
  "isl (GaussianHMM_fit demo_lib 3 (random_state demo_A) (X demo_A) (lengths demo_A))
   \<and> base_model demo_lib demo_A 3 = Inr None
   \<and> isl (bic_candidate demo_lib demo_A 3)
   \<and> bic_iter demo_lib demo_A (PosInf, None) 3 = (PosInf, None)
   \<and> isl (dic_candidate demo_lib demo_A 3)
   \<and> dic_iter demo_lib demo_A (NegInf, None) 3 = (NegInf, None)
   \<and> isl (snd (cv_candidate demo_lib demo_A 3))
   \<and> cv_iter demo_lib (demo_A, NegInf, None) 3 = (demo_A, NegInf, None)
   \<and> (\<exists>r. SelectorConstant_select demo_lib demo_A = Inr r)
   \<and> (\<exists>r. SelectorBIC_select demo_lib demo_A = Inr r)
   \<and> (\<exists>r. SelectorDIC_select demo_lib demo_A = Inr r)
   \<and> (\<exists>r. SelectorCV_select demo_lib demo_A = Inr r)"
proof -
  have fit: "isl (GaussianHMM_fit demo_lib 3 (random_state demo_A) (X demo_A) (lengths demo_A))"
    by (simp add: GaussianHMM_fit_def demo_defs)
  have bic: "isl (bic_candidate demo_lib demo_A 3)" by (simp add: eval_defs demo_defs)
  have dic: "isl (dic_candidate demo_lib demo_A 3)" by (simp add: eval_defs demo_defs)
  have cv: "isl (snd (cv_candidate demo_lib demo_A 3))" by (simp add: cv_candidate_raises)
  note b = select_never_raises [of demo_lib demo_A 3 "(PosInf, None)"]
  note d = select_never_raises [of demo_lib demo_A 3 "(NegInf, None)"]
  from b fit have "base_model demo_lib demo_A 3 = Inr None" by blast
  moreover from b bic have "bic_iter demo_lib demo_A (PosInf, None) 3 = (PosInf, None)" by blast
  moreover from d dic have "dic_iter demo_lib demo_A (NegInf, None) 3 = (NegInf, None)" by blast
  moreover from d cv have "cv_iter demo_lib (demo_A, NegInf, None) 3 = (demo_A, NegInf, None)"
    by blast
  moreover from b have "\<exists>r. SelectorConstant_select demo_lib demo_A = Inr r"
    and "\<exists>r. SelectorBIC_select demo_lib demo_A = Inr r"
    and "\<exists>r. SelectorDIC_select demo_lib demo_A = Inr r"
    and "\<exists>r. SelectorCV_select demo_lib demo_A = Inr r" by blast+
  ultimately show ?thesis using fit bic dic cv by blast
qed

end
